theory Spec2Isabelle
  imports Complex_Main
begin

section \<open>Strings as the pipeline uses them\<close>

text \<open>
  The module \<open>localRAG\<close> works on JavaScript strings. They are modelled as \<open>string\<close>
  (a list of 8-bit characters) and read as ASCII text: a character above 127 is carried
  along unchanged, it is no letter, no digit and no white space.
\<close>

definition upperLetters :: string where
  "upperLetters = ''ABCDEFGHIJKLMNOPQRSTUVWXYZ''"

definition lowerLetters :: string where
  "lowerLetters = ''abcdefghijklmnopqrstuvwxyz''"

definition digitChars :: string where
  "digitChars = ''0123456789''"

text \<open>\<open>String.prototype.toLowerCase\<close>, one character at a time.\<close>

definition lowerChar :: "char \<Rightarrow> char" where
  "lowerChar c = (case map_of (zip upperLetters lowerLetters) c of Some l \<Rightarrow> l | None \<Rightarrow> c)"

definition toLowerCase :: "string \<Rightarrow> string" where
  "toLowerCase s = map lowerChar s"

definition toUpperChar :: "char \<Rightarrow> char" where
  "toUpperChar c = (case map_of (zip lowerLetters upperLetters) c of Some u \<Rightarrow> u | None \<Rightarrow> c)"

definition toUpperCase :: "string \<Rightarrow> string" where
  "toUpperCase s = map toUpperChar s"

text \<open>The class \<open>\s\<close> on ASCII: space, tab, line feed, vertical tab, form feed, carriage return.\<close>

definition isSpace :: "char \<Rightarrow> bool" where
  "isSpace c = (c \<in> set [CHR 0x20, CHR 0x09, CHR 0x0A, CHR 0x0B, CHR 0x0C, CHR 0x0D])"

text \<open>The class \<open>\w\<close>: letters, digits and the underscore.\<close>

definition isWordChar :: "char \<Rightarrow> bool" where
  "isWordChar c = (c \<in> set (lowerLetters @ upperLetters @ digitChars @ ''_''))"

text \<open>The dot of a regular expression matches everything but a line terminator.\<close>

definition isLineTerminator :: "char \<Rightarrow> bool" where
  "isLineTerminator c = (c = CHR 0x0A \<or> c = CHR 0x0D)"

definition trim :: "string \<Rightarrow> string" where
  "trim s = rev (dropWhile isSpace (rev (dropWhile isSpace s)))"

fun startsWith :: "string \<Rightarrow> string \<Rightarrow> bool" where
  "startsWith s [] = True"
| "startsWith [] (w # ws) = False"
| "startsWith (c # cs) (w # ws) = (c = w \<and> startsWith cs ws)"

text \<open>\<open>String.prototype.includes\<close>: the argument occurs somewhere in the string.\<close>

fun includesStr :: "string \<Rightarrow> string \<Rightarrow> bool" where
  "includesStr [] w = (w = [])"
| "includesStr (c # cs) w = (startsWith (c # cs) w \<or> includesStr cs w)"

text \<open>\<open>Array.prototype.join\<close>.\<close>

fun join :: "string \<Rightarrow> string list \<Rightarrow> string" where
  "join sep [] = []"
| "join sep [x] = x"
| "join sep (x # y # ys) = x @ sep @ join sep (y # ys)"

text \<open>\<open>Array.prototype.slice(-n)\<close>: the last \<open>n\<close> elements.\<close>

definition sliceLast :: "nat \<Rightarrow> 'a list \<Rightarrow> 'a list" where
  "sliceLast n xs = drop (length xs - n) xs"

section \<open>The JavaScript Map, in insertion order\<close>

text \<open>
  A \<open>Map\<close> iterates its keys in the order of their first insertion; \<open>set\<close> on a key
  that is present overwrites the value where it stands. The model is an association
  list in that order.
\<close>

type_synonym ('k, 'v) jsmap = "('k \<times> 'v) list"

definition mapGet :: "('k, 'v) jsmap \<Rightarrow> 'k \<Rightarrow> 'v option" where
  "mapGet m k = map_of m k"

fun mapSet :: "'k \<Rightarrow> 'v \<Rightarrow> ('k, 'v) jsmap \<Rightarrow> ('k, 'v) jsmap" where
  "mapSet k v [] = [(k, v)]"
| "mapSet k v ((k', v') # m) = (if k' = k then (k, v) # m else (k', v') # mapSet k v m)"

fun mapDelete :: "'k \<Rightarrow> ('k, 'v) jsmap \<Rightarrow> ('k, 'v) jsmap" where
  "mapDelete k [] = []"
| "mapDelete k ((k', v') # m) = (if k' = k then m else (k', v') # mapDelete k m)"

section \<open>The response cache\<close>

record cacheEntry =
  response :: string
  timestamp :: int

type_synonym responseCache = "(string, cacheEntry) jsmap"

definition CACHE_TTL :: int where
  "CACHE_TTL = 5 * 60 * 1000"

definition cacheKeyOf :: "string \<Rightarrow> string" where
  "cacheKeyOf query = trim (toLowerCase query)"

text \<open>
  \<open>getCachedResponse\<close>: the clock \<open>Date.now()\<close> is the argument \<open>now\<close>. The result is
  the cached text (or \<open>None\<close> for \<open>null\<close>) and the cache, from which an expired entry
  has been deleted.
\<close>

definition getCachedResponse :: "string \<Rightarrow> int \<Rightarrow> responseCache \<Rightarrow> string option \<times> responseCache" where
  "getCachedResponse query now cache =
     (let cacheKey = cacheKeyOf query in
      case mapGet cache cacheKey of
        None \<Rightarrow> (None, cache)
      | Some cached \<Rightarrow>
          if now - timestamp cached < CACHE_TTL then (Some (response cached), cache)
          else (None, mapDelete cacheKey cache))"

text \<open>\<open>cacheResponse\<close>: store, then drop the first key of the map when it holds more than 50.\<close>

definition cacheResponse :: "string \<Rightarrow> string \<Rightarrow> int \<Rightarrow> responseCache \<Rightarrow> responseCache" where
  "cacheResponse query resp now cache =
     (let cacheKey = cacheKeyOf query;
          cache1 = mapSet cacheKey \<lparr>response = resp, timestamp = now\<rparr> cache
      in if length cache1 > 50
         then (case cache1 of [] \<Rightarrow> cache1 | (firstKey, _) # _ \<Rightarrow> mapDelete firstKey cache1)
         else cache1)"

text \<open>A sequence of put operations, each with its question, its response and its clock.\<close>

definition cachePuts :: "(string \<times> string \<times> int) list \<Rightarrow> responseCache \<Rightarrow> responseCache" where
  "cachePuts ops cache = foldl (\<lambda>c (q, r, t). cacheResponse q r t c) cache ops"

section \<open>Regular expressions\<close>

text \<open>
  The regular expressions of the module use literals, the dot, the classes \<open>\w\<close> and
  \<open>\s\<close>, bracket classes, alternation, the optional group, the star of a single
  character class, and the assertions \<open>^\<close>, \<open>$\<close> and \<open>\b\<close>. \<open>RegExp.prototype.test\<close>
  asks whether some position of the string starts a match.
\<close>

datatype cclass = Dot | WordClass | SpaceClass | OneOf string | Union cclass cclass

datatype regex =
    Lit string
  | Cls cclass
  | Seq regex regex
  | Alt regex regex
  | Opt regex
  | Star cclass
  | Bol
  | Eol
  | WordB

fun classHas :: "cclass \<Rightarrow> char \<Rightarrow> bool" where
  "classHas Dot c = (\<not> isLineTerminator c)"
| "classHas WordClass c = isWordChar c"
| "classHas SpaceClass c = isSpace c"
| "classHas (OneOf cs) c = (c \<in> set cs)"
| "classHas (Union a b) c = (classHas a c \<or> classHas b c)"

text \<open>
  A position in the subject is the character before it (\<open>None\<close> at the start) and the
  text from it on. With the flag \<open>i\<close> two characters are equal when their upper-case
  forms are.
\<close>

type_synonym rxpos = "char option \<times> string"

definition canon :: "bool \<Rightarrow> char \<Rightarrow> char" where
  "canon ci c = (if ci then toUpperChar c else c)"

fun litEnd :: "bool \<Rightarrow> string \<Rightarrow> rxpos \<Rightarrow> rxpos option" where
  "litEnd ci [] pos = Some pos"
| "litEnd ci (l # ls) (p, []) = None"
| "litEnd ci (l # ls) (p, x # xs) = (if canon ci x = canon ci l then litEnd ci ls (Some x, xs) else None)"

fun starEnds :: "cclass \<Rightarrow> rxpos \<Rightarrow> rxpos list" where
  "starEnds k (p, []) = [(p, [])]"
| "starEnds k (p, x # xs) = (if classHas k x then starEnds k (Some x, xs) else []) @ [(p, x # xs)]"

definition isWordBefore :: "rxpos \<Rightarrow> bool" where
  "isWordBefore pos = (case fst pos of None \<Rightarrow> False | Some c \<Rightarrow> isWordChar c)"

definition isWordAfter :: "rxpos \<Rightarrow> bool" where
  "isWordAfter pos = (case snd pos of [] \<Rightarrow> False | c # _ \<Rightarrow> isWordChar c)"

text \<open>
  \<open>ends ci r pos\<close> lists the positions where a match of \<open>r\<close> that starts at \<open>pos\<close> can
  end, in the order in which a backtracking matcher tries them.
\<close>

fun ends :: "bool \<Rightarrow> regex \<Rightarrow> rxpos \<Rightarrow> rxpos list" where
  "ends ci (Lit l) pos = (case litEnd ci l pos of None \<Rightarrow> [] | Some e \<Rightarrow> [e])"
| "ends ci (Cls k) (p, []) = []"
| "ends ci (Cls k) (p, x # xs) = (if classHas k x then [(Some x, xs)] else [])"
| "ends ci (Seq a b) pos = concat (map (ends ci b) (ends ci a pos))"
| "ends ci (Alt a b) pos = ends ci a pos @ ends ci b pos"
| "ends ci (Opt a) pos = ends ci a pos @ [pos]"
| "ends ci (Star k) pos = starEnds k pos"
| "ends ci Bol pos = (if fst pos = None then [pos] else [])"
| "ends ci Eol pos = (if snd pos = [] then [pos] else [])"
| "ends ci WordB pos = (if isWordBefore pos \<noteq> isWordAfter pos then [pos] else [])"

fun testFrom :: "bool \<Rightarrow> regex \<Rightarrow> rxpos \<Rightarrow> bool" where
  "testFrom ci r (p, []) = (ends ci r (p, []) \<noteq> [])"
| "testFrom ci r (p, x # xs) = (ends ci r (p, x # xs) \<noteq> [] \<or> testFrom ci r (Some x, xs))"

text \<open>\<open>/r/.test(s)\<close> and \<open>/r/i.test(s)\<close>.\<close>

definition test :: "regex \<Rightarrow> string \<Rightarrow> bool" where
  "test r s = testFrom False r (None, s)"

definition test_i :: "regex \<Rightarrow> string \<Rightarrow> bool" where
  "test_i r s = testFrom True r (None, s)"

text \<open>Shorthands to write the patterns of the source: a sequence, an alternation of literals.\<close>

fun seqs :: "regex list \<Rightarrow> regex" where
  "seqs [] = Lit []"
| "seqs [r] = r"
| "seqs (r # rs) = Seq r (seqs rs)"

fun alts :: "regex list \<Rightarrow> regex" where
  "alts [] = Lit []"
| "alts [r] = r"
| "alts (r # rs) = Alt r (alts rs)"

definition anyStar :: regex where
  "anyStar = Star Dot"

text \<open>
  The number of matches of \<open>new RegExp(keyword, 'gi')\<close> in a string, for a keyword
  without regular-expression operators: occurrences are counted from left to right, and
  the search resumes behind each one.
\<close>

fun startsWithCI :: "string \<Rightarrow> string \<Rightarrow> bool" where
  "startsWithCI s [] = True"
| "startsWithCI [] (w # ws) = False"
| "startsWithCI (c # cs) (w # ws) = (toUpperChar c = toUpperChar w \<and> startsWithCI cs ws)"

fun countMatches :: "string \<Rightarrow> nat \<Rightarrow> string \<Rightarrow> nat" where
  "countMatches kw skip [] = 0"
| "countMatches kw (Suc n) (c # cs) = countMatches kw n cs"
| "countMatches kw 0 (c # cs) =
     (if startsWithCI (c # cs) kw then Suc (countMatches kw (length kw - 1) cs)
      else countMatches kw 0 cs)"

section \<open>The conversation context\<close>

datatype sentiment = Curious | Professional | Casual

datatype depth = Overview | Detailed | DeepDive

text \<open>\<open>askedAbout\<close> is a JavaScript \<open>Set\<close>: its elements in the order of their first insertion.\<close>

record ConversationContext =
  topics :: "string list"
  askedAbout :: "string list"
  sentiment :: sentiment
  depth :: depth

definition initialContext :: ConversationContext where
  "initialContext = \<lparr>topics = [], askedAbout = [], sentiment = Curious, depth = Overview\<rparr>"

definition setAdd :: "'a \<Rightarrow> 'a list \<Rightarrow> 'a list" where
  "setAdd x xs = (if x \<in> set xs then xs else xs @ [x])"

definition askAbout :: "string \<Rightarrow> ConversationContext \<Rightarrow> ConversationContext" where
  "askAbout t ctx = ctx\<lparr>askedAbout := setAdd t (askedAbout ctx)\<rparr>"

definition casualWords :: regex where
  "casualWords = seqs [WordB, alts (map Lit [''cool'', ''awesome'', ''interesting'', ''great'', ''amazing'']), WordB]"

definition professionalWords :: regex where
  "professionalWords = seqs [WordB, alts (map Lit [''experience'', ''professional'', ''qualification'', ''expertise'']), WordB]"

definition detailWords :: regex where
  "detailWords = seqs [WordB, alts (map Lit [''more'', ''detail'', ''specific'', ''elaborate'', ''deep'']), WordB]"

definition briefWords :: regex where
  "briefWords = seqs [WordB, alts (map Lit [''quickly'', ''brief'', ''summary'', ''overview'']), WordB]"

definition updateContext :: "string \<Rightarrow> string list \<Rightarrow> ConversationContext \<Rightarrow> ConversationContext" where
  "updateContext query intents ctx =
     ctx\<lparr>topics := sliceLast 10 (topics ctx @ intents),
         sentiment := (if test_i casualWords query then Casual
                       else if test_i professionalWords query then Professional
                       else sentiment ctx),
         depth := (if test_i detailWords query then Detailed
                   else if test_i briefWords query then Overview
                   else depth ctx)\<rparr>"

section \<open>Intent detection\<close>

definition SEMANTIC_KEYWORDS :: "(string \<times> string list) list" where
  "SEMANTIC_KEYWORDS =
    [(''experience'', [''work'', ''job'', ''career'', ''role'', ''position'', ''internship'', ''employed'', ''worked at'']),
     (''projects'', [''built'', ''created'', ''developed'', ''project'', ''portfolio'', ''made'', ''app'', ''application'']),
     (''skills'', [''skill'', ''technology'', ''tech'', ''expertise'', ''proficient'', ''good at'', ''know'', ''can you'']),
     (''education'', [''study'', ''studied'', ''degree'', ''university'', ''college'', ''school'', ''education'', ''graduated'']),
     (''ai'', [''ai'', ''artificial intelligence'', ''machine learning'', ''ml'', ''llm'', ''rag'', ''chatbot'', ''neural'']),
     (''contact'', [''contact'', ''reach'', ''email'', ''phone'', ''linkedin'', ''github'', ''connect'', ''get in touch'']),
     (''achievements'', [''achievement'', ''accomplish'', ''proud'', ''award'', ''honor'', ''recognition'', ''success'']),
     (''personal'', [''hobby'', ''interest'', ''personal'', ''passion'', ''love'', ''enjoy'', ''background'', ''story'']),
     (''leadership'', [''leadership'', ''leader'', ''manage'', ''team'', ''coordinate'', ''organize'', ''motivate'']),
     (''motivation'', [''why'', ''motivated'', ''inspire'', ''passion'', ''drive'', ''what sparked'']),
     (''challenges'', [''challenge'', ''difficult'', ''problem'', ''obstacle'', ''struggle'', ''overcome'']),
     (''future'', [''future'', ''vision'', ''goal'', ''plan'', ''career path'', ''long-term'', ''aspiration'']),
     (''resume'', [''resume'', ''cv'', ''walk me through'', ''background'', ''tell me about yourself'']),
     (''cloud'', [''cloud'', ''aws'', ''azure'', ''gcp'', ''serverless'', ''container'', ''kubernetes'']),
     (''consulting'', [''consult'', ''business architect'', ''strategy'', ''enterprise'', ''client'']),
     (''teaching'', [''teach'', ''graduate assistant'', ''student'', ''education'', ''mentor'']),
     (''retail'', [''retail'', ''evm'', ''assistant manager'', ''store'', ''customer'']),
     (''technical'', [''technical'', ''code'', ''debug'', ''implement'', ''design'', ''architecture''])]"

text \<open>
  The scores are JavaScript numbers; every value that occurs is a multiple of one half,
  which binary floating point adds exactly, so they are modelled in \<open>rat\<close>.
\<close>

definition keywordStep :: "string \<Rightarrow> rat \<Rightarrow> string \<Rightarrow> rat" where
  "keywordStep queryLower score keyword =
     (if includesStr queryLower keyword
      then score + (if length keyword > 4 then 2 else 1)
                 + (of_nat (countMatches keyword 0 queryLower) - 1) * (1 / 2)
      else score)"

definition intentScore :: "string \<Rightarrow> string list \<Rightarrow> rat" where
  "intentScore queryLower keywords = foldl (keywordStep queryLower) 0 keywords"

definition scoreStep :: "string \<Rightarrow> (string, rat) jsmap \<Rightarrow> string \<times> string list \<Rightarrow> (string, rat) jsmap" where
  "scoreStep queryLower intentScores entry =
     (let score = intentScore queryLower (snd entry)
      in if score > 0 then mapSet (fst entry) score intentScores else intentScores)"

definition whatYouPattern :: regex where
  "whatYouPattern = seqs [Lit ''what '', alts (map Lit [''do'', ''can'', ''are'']), Lit '' you'']"

definition tellMePattern :: regex where
  "tellMePattern = seqs [Lit ''tell me '', alts (map Lit [''about'', ''more''])]"

definition howPattern :: regex where
  "howPattern = seqs [Lit ''how '', alts (map Lit [''did'', ''do'', ''can''])]"

definition patternStep :: "string \<Rightarrow> (string, rat) jsmap \<Rightarrow> regex \<times> string \<times> rat \<Rightarrow> (string, rat) jsmap" where
  "patternStep query intentScores rule =
     (case rule of (r, intent, score) \<Rightarrow>
        if test_i r query then mapSet intent score intentScores else intentScores)"

definition intentPatterns :: "(regex \<times> string \<times> rat) list" where
  "intentPatterns =
     [(whatYouPattern, ''capabilities'', 2),
      (tellMePattern, ''detailed'', 3 / 2),
      (howPattern, ''process'', 3 / 2),
      (Lit ''why'', ''motivation'', 2),
      (Lit ''when'', ''timeline'', 1),
      (Lit ''where'', ''location'', 1)]"

definition intentTable :: "string \<Rightarrow> (string, rat) jsmap" where
  "intentTable query =
     (let queryLower = toLowerCase query;
          intentScores = foldl (scoreStep queryLower) [] SEMANTIC_KEYWORDS
      in foldl (patternStep query) intentScores intentPatterns)"

text \<open>
  \<open>Array.prototype.sort\<close> with the comparator \<open>b[1] - a[1]\<close>: a stable sort by
  descending score.
\<close>

definition sortByScoreDesc :: "('a \<times> rat) list \<Rightarrow> ('a \<times> rat) list" where
  "sortByScoreDesc xs = sort_key (\<lambda>e. - snd e) xs"

definition detectIntent :: "string \<Rightarrow> string list" where
  "detectIntent query = map fst (sortByScoreDesc (intentTable query))"

text \<open>
  The ranking in the words of the specification, to compare \<open>detectIntent\<close> with. A
  keyword that occurs in the lower-cased query gives 2 points when it is longer than 4
  characters and 1 point otherwise, and half a point for each occurrence beyond the
  first; an intent of the taxonomy scores the sum over its keywords.
\<close>

definition keywordPoints :: "string \<Rightarrow> string \<Rightarrow> rat" where
  "keywordPoints queryLower keyword =
     (if includesStr queryLower keyword
      then (if length keyword > 4 then 2 else 1) + (of_nat (countMatches keyword 0 queryLower) - 1) / 2
      else 0)"

definition taxonomyScore :: "string \<Rightarrow> string \<Rightarrow> rat" where
  "taxonomyScore query intent =
     (case map_of SEMANTIC_KEYWORDS intent of
        None \<Rightarrow> 0
      | Some keywords \<Rightarrow> sum_list (map (keywordPoints (toLowerCase query)) keywords))"

text \<open>
  The result as the claim states it: the intents of the taxonomy with a nonzero score,
  sorted by descending score, ties in the order of the taxonomy.
\<close>

definition claimedIntents :: "string \<Rightarrow> string list" where
  "claimedIntents query =
     sort_key (\<lambda>i. - taxonomyScore query i)
       (filter (\<lambda>i. taxonomyScore query i \<noteq> 0) (map fst SEMANTIC_KEYWORDS))"

text \<open>
  With the battery of patterns: each pattern that matches the query sets the score of
  its intent, replacing a keyword score; an intent is first seen in the order of the
  taxonomy, the intents that only the patterns give after those.
\<close>

definition finalScore :: "string \<Rightarrow> string \<Rightarrow> rat" where
  "finalScore query =
     foldl (\<lambda>g rule. case rule of (r, intent, score) \<Rightarrow> if test_i r query then g(intent := score) else g)
       (taxonomyScore query) intentPatterns"

definition firstSeenOrder :: "string list" where
  "firstSeenOrder = map fst SEMANTIC_KEYWORDS @ [''capabilities'', ''detailed'', ''process'', ''timeline'', ''location'']"

definition rankedIntents :: "string \<Rightarrow> string list" where
  "rankedIntents query =
     sort_key (\<lambda>i. - finalScore query i) (filter (\<lambda>i. finalScore query i \<noteq> 0) firstSeenOrder)"

text \<open>The table that holds, for the intents of a list in their order, the scores that are not zero.\<close>

definition scoreTable :: "string list \<Rightarrow> (string \<Rightarrow> rat) \<Rightarrow> (string, rat) jsmap" where
  "scoreTable order g = map (\<lambda>i. (i, g i)) (filter (\<lambda>i. g i \<noteq> 0) order)"

section \<open>Query normalization\<close>

text \<open>
  \<open>String.prototype.replace\<close> with a global regular expression: the subject is scanned
  from left to right; where the expression matches, the first match in backtracking
  order is replaced and the scan resumes behind it. \<open>skip\<close> counts the characters of
  the subject that still belong to the match just replaced. (An empty match cannot
  occur with the expressions below, each of which consumes a character.)
\<close>

fun replaceAll :: "bool \<Rightarrow> regex \<Rightarrow> string \<Rightarrow> char option \<Rightarrow> nat \<Rightarrow> string \<Rightarrow> string" where
  "replaceAll ci r repl p skip [] = []"
| "replaceAll ci r repl p (Suc n) (c # cs) = replaceAll ci r repl (Some c) n cs"
| "replaceAll ci r repl p 0 (c # cs) =
     (case ends ci r (p, c # cs) of
        [] \<Rightarrow> c # replaceAll ci r repl (Some c) 0 cs
      | e # _ \<Rightarrow> repl @ replaceAll ci r repl (Some c) (length cs - length (snd e)) cs)"

definition TYPO_CORRECTIONS :: "(string \<times> string) list" where
  "TYPO_CORRECTIONS =
    [(''experiance'', ''experience''),
     (''expirience'', ''experience''),
     (''experince'', ''experience''),
     (''projct'', ''project''),
     (''proyect'', ''project''),
     (''skilz'', ''skills''),
     (''skils'', ''skills''),
     (''contct'', ''contact''),
     (''contat'', ''contact''),
     (''edcuation'', ''education''),
     (''educaton'', ''education''),
     (''resumee'', ''resume''),
     (''resum'', ''resume'')]"

definition SYNONYMS :: "(string \<times> string list) list" where
  "SYNONYMS =
    [(''job'', [''work'', ''employment'', ''position'', ''role'', ''career'']),
     (''project'', [''app'', ''application'', ''build'', ''creation'', ''work'']),
     (''skill'', [''ability'', ''expertise'', ''knowledge'', ''capability'', ''proficiency'']),
     (''contact'', [''reach'', ''connect'', ''get in touch'', ''email'', ''call'']),
     (''education'', [''degree'', ''school'', ''university'', ''study'', ''learning'']),
     (''achievement'', [''accomplishment'', ''success'', ''award'', ''honor'', ''recognition''])]"

text \<open>The expression \<open>\btypo\b\<close> with the flags \<open>gi\<close>.\<close>

definition wholeWord :: "string \<Rightarrow> regex" where
  "wholeWord w = Seq WordB (Seq (Lit w) WordB)"

definition fixTypo :: "string \<Rightarrow> string \<times> string \<Rightarrow> string" where
  "fixTypo normalized entry = replaceAll True (wholeWord (fst entry)) (snd entry) None 0 normalized"

definition addSynonyms :: "string \<Rightarrow> string \<times> string list \<Rightarrow> string" where
  "addSynonyms normalized entry =
     (if includesStr normalized (fst entry) then normalized @ '' '' @ join '' '' (snd entry)
      else normalized)"

text \<open>The expressions \<open>[?!.]+\<close> and \<open>\s+\<close>.\<close>

definition punctuationRun :: regex where
  "punctuationRun = Seq (Cls (OneOf ''?!.'')) (Star (OneOf ''?!.''))"

definition spaceRun :: regex where
  "spaceRun = Seq (Cls SpaceClass) (Star SpaceClass)"

definition normalizeQuery :: "string \<Rightarrow> string" where
  "normalizeQuery query =
     (let normalized0 = trim (toLowerCase query);
          normalized1 = foldl fixTypo normalized0 TYPO_CORRECTIONS;
          normalized2 = foldl addSynonyms normalized1 SYNONYMS
      in trim (replaceAll False spaceRun '' '' None 0
                 (replaceAll False punctuationRun '' '' None 0 normalized2)))"




section \<open>Question templates\<close>

text \<open>\<open>gaps [a, b, c]\<close> is the expression \<open>a.*b.*c\<close>.\<close>

fun gaps :: "string list \<Rightarrow> regex" where
  "gaps [] = Lit []"
| "gaps [a] = Lit a"
| "gaps (a # as) = Seq (Lit a) (Seq anyStar (gaps as))"

text \<open>
  The rules of \<open>matchQuestionPattern\<close> in the order of the source. A rule fires when
  each of its expressions (one, or two joined by \<open>&&\<close>) matches the question with the
  flag \<open>i\<close>; the first rule that fires gives the pattern name.
\<close>

definition questionPatterns :: "(regex list \<times> string) list" where
  "questionPatterns =
    [([alts [seqs [Lit ''walk '', Opt (Lit ''me ''), Lit ''through '', Opt (Lit ''your ''), Lit ''resume''],
             Lit ''tell me about yourself'', Lit ''your background'']], ''resume_overview''),
     ([alts [gaps [''why'', ''pursue'', ''bachelor'', ''master''], gaps [''motivated'', ''degree'']]], ''education_motivation''),
     ([alts [gaps [''why'', ''university of oklahoma''], gaps [''why'', ''ou'']]], ''why_ou''),
     ([gaps [''why'', ''management information'']], ''why_mis''),
     ([alts [gaps [''integrate'', ''business'', ''technical''], gaps [''combine'', ''business'', ''tech'']]], ''business_tech_integration''),
     ([alts [gaps [''define'', ''digital transformation''], gaps [''what'', ''digital transformation'']]], ''digital_transformation''),
     ([alts [gaps [''what sparked'', ''passion''], gaps [''why'', ''passionate'']]], ''passion_origin''),
     ([alts [seqs [Lit ''long'', Opt (Cls (OneOf ''- '')), Lit ''term'', anyStar, Lit ''vision''],
             gaps [''career'', ''vision''], gaps [''future'', ''career'']]], ''career_vision''),
     ([alts [gaps [''which'', ''shaped'', ''most''], gaps [''most important'', ''experience'']]], ''most_impactful''),
     ([alts [Lit ''objectstream'', gaps [''pega'', ''intern'']],
       alts [gaps [''what'', ''do''], Lit ''role'', Lit ''contribute'']], ''objectstream_role''),
     ([alts [gaps [''beats'', ''dre''], gaps [''consumer'', ''insight'']]], ''beats_insights''),
     ([seqs [Lit ''love'', Opt (Lit [CHR 0x27]), Lit ''s'', anyStar, Lit ''travel''],
       alts [Lit ''21%'', Lit ''latency'', Lit ''reporting'']], ''loves_analytics''),
     ([alts [Lit ''graduate assistant'', gaps [''teaching'', ''sql'']]], ''teaching_role''),
     ([alts [Lit ''evm'', gaps [''retail'', ''management'']]], ''retail_experience''),
     ([alts [seqs [alts [gaps [''avatar'', ''portfolio''], gaps [''3d'', ''portfolio'']], anyStar, Lit ''inspired''],
             gaps [''why'', ''3d'']]], ''avatar_inspiration''),
     ([alts [gaps [''chibitomo'', ''problem''], gaps [''chibitomo'', ''solve'']]], ''chibitomo_purpose''),
     ([alts [gaps [''aesculapius'', ''privacy''], gaps [''why'', ''privacy'']]], ''aesculapius_privacy''),
     ([alts [gaps [''linkedin'', ''assistant'', ''inspired''], gaps [''why'', ''chrome'']]], ''linkedin_motivation''),
     ([alts [gaps [''prefer'', ''cloud''], gaps [''which'', ''cloud'', ''platform'']]], ''cloud_preference''),
     ([alts [gaps [''sql'', ''join''], Lit ''window function'', Lit ''cte'']], ''sql_proficiency''),
     ([alts [gaps [''debug'', ''python''], gaps [''debugging'', ''process'']]], ''debugging_approach''),
     ([alts [gaps [''langchain'', ''hugging'', ''face''], gaps [''prefer'', ''ai'', ''library'']]], ''ai_library_preference''),
     ([alts [gaps [''cousins'', ''presidential'', ''club''], gaps [''events'', ''chair'']]], ''leadership_club''),
     ([alts [gaps [''balance'', ''academic'', ''project''], gaps [''manage'', ''time'']]], ''time_management''),
     ([alts [gaps [''motivate'', ''team''], gaps [''team'', ''motivation'']]], ''team_motivation''),
     ([alts [gaps [''work'', ''culture''], gaps [''culture'', ''motivate'']]], ''work_culture''),
     ([alts [gaps [''handle'', ''failure''], gaps [''deal'', ''criticism'']]], ''handling_failure''),
     ([alts [gaps [''why'', ''hire'', ''you''], gaps [''why'', ''should'', ''we'']]], ''why_hire''),
     ([alts [gaps [''mistake'', ''grew''], gaps [''learned'', ''from'']]], ''learning_from_mistakes''),
     ([alts [gaps [''ethical'', ''use'', ''technology''], gaps [''ethics'', ''ai'']]], ''tech_ethics''),
     ([alts [gaps [''how'', ''contact''], seqs [Lit ''reach '', Opt (Lit ''out to ''), Lit ''you''], Lit ''get in touch'',
             seqs [Lit ''your '', alts (map Lit [''email'', ''phone'', ''linkedin'', ''github''])]]], ''contact''),
     ([alts [gaps [''what'', ''do'', ''for fun''], Lit ''hobbies'', Lit ''interests'',
             seqs [Lit ''outside '', Opt (Lit ''of ''), Lit ''work''], Lit ''free time'', Lit ''enjoy doing'',
             Lit ''passion outside'']], ''hobbies'')]"

definition ruleFires :: "string \<Rightarrow> regex list \<times> string \<Rightarrow> bool" where
  "ruleFires question rule = list_all (\<lambda>r. test_i r question) (fst rule)"

definition matchQuestionPattern :: "string \<Rightarrow> string option" where
  "matchQuestionPattern question = map_option snd (find (ruleFires question) questionPatterns)"

section \<open>The profile document\<close>

record Experience =
  exp_title :: string
  exp_company :: string
  exp_description :: string
  exp_location :: "string option"
  exp_duration :: "string option"

record Project =
  proj_name :: string
  proj_description :: string
  proj_technologies :: "string option"
  proj_link :: "string option"

record Education =
  edu_degree :: string
  edu_school :: string
  edu_location :: "string option"
  edu_duration :: "string option"

record Contact =
  email :: "string option"
  phone :: "string option"
  linkedin :: "string option"
  github :: "string option"

record ResumeData =
  name :: string
  location :: string
  bio :: string
  tagline :: string
  professional_summary :: string
  skills :: "string list"
  experience :: "Experience list option"
  projects :: "Project list option"
  education :: "Education list option"
  certifications :: "string list option"
  contact :: "Contact option"
  leadership :: "string list option"
  honors :: "string list option"

text \<open>The minimal profile that \<open>generateRAGResponse\<close> builds when loading fails.\<close>

definition fallbackResume :: ResumeData where
  "fallbackResume =
     \<lparr>name = ''Marzook Mansoor'',
      location = ''Edmond, OK'',
      bio = ''AI/ML Engineer and Business Analyst'',
      tagline = ''Building AI solutions'',
      professional_summary = ''Passionate about AI, automation, and digital transformation'',
      skills = [''Python'', ''SQL'', ''AI/ML'', ''React'', ''TypeScript''],
      experience = Some [],
      projects = Some [],
      education = Some [],
      certifications = None,
      contact = None,
      leadership = None,
      honors = None\<rparr>"

text \<open>An optional string in a template, written \<open>x || ''\<close> in the source.\<close>

definition orEmpty :: "string option \<Rightarrow> string" where
  "orEmpty x = (case x of None \<Rightarrow> [] | Some s \<Rightarrow> s)"

section \<open>Extraction of relevant information\<close>

text \<open>
  \<open>calculateAdvancedSimilarity\<close> computes a floating-point score and builds regular
  expressions from the words of the query, which throws \<open>SyntaxError\<close> for a word that
  is no valid expression. It is a parameter of the model: \<open>similarity query text boost\<close>
  is \<open>None\<close> when the call throws and the score otherwise. Scores are compared in \<open>rat\<close>.
\<close>

type_synonym similarity = "string \<Rightarrow> string \<Rightarrow> rat \<Rightarrow> rat option"


record Section =
  content :: string
  score :: rat
  kind :: string

definition introPattern :: regex where
  "introPattern = Seq Bol (alts (map Lit [''hi'', ''hey'', ''hello'', ''howdy'', ''who are you'',
                                          ''tell me about yourself'', ''about you'']))"

definition introInfo :: "ResumeData \<Rightarrow> string" where
  "introInfo resume =
     ''Name: '' @ name resume @ ''\<newline>'' @
     ''Location: '' @ location resume @ ''\<newline>'' @
     ''Contact: '' @
       (case contact resume of
          None \<Rightarrow> ''marzook.mansoor@outlook.com''
        | Some c \<Rightarrow> (if orEmpty (email c) = [] then ''marzook.mansoor@outlook.com'' else orEmpty (email c))) @
       '' | (405) 588-9434\<newline>'' @
     ''Bio: '' @ bio resume @ ''\<newline>'' @
     ''Professional Summary: '' @ professional_summary resume @ ''\<newline>''"

text \<open>The overview that is used when no section was collected.\<close>

definition generalOverview :: "ResumeData \<Rightarrow> string" where
  "generalOverview resume =
     name resume @ '' - '' @ professional_summary resume @ ''\<newline>\<newline>Key Skills: '' @
     (if join '', '' (take 10 (skills resume)) = [] then ''Various''
      else join '', '' (take 10 (skills resume)))"

fun projectLoop :: "similarity \<Rightarrow> string \<Rightarrow> string \<Rightarrow> Project list \<Rightarrow> Section list \<Rightarrow> Section list option" where
  "projectLoop sim query queryLower [] sections = Some sections"
| "projectLoop sim query queryLower (project # rest) sections =
     (case sim query (proj_name project @ '' '' @ proj_description project) (3 / 2) of
        None \<Rightarrow> None
      | Some sc \<Rightarrow>
          projectLoop sim query queryLower rest
            (if sc > 3 / 10 \<or> includesStr queryLower (toLowerCase (proj_name project))
             then sections @
                    [\<lparr>content = ''PROJECT: '' @ proj_name project @ ''\<newline>'' @ proj_description project @ ''\<newline>'' @
                                 orEmpty (proj_technologies project) @ ''\<newline>'' @ orEmpty (proj_link project),
                      score = sc, kind = ''project''\<rparr>]
             else sections))"

definition topProjects :: "Project list \<Rightarrow> Section list" where
  "topProjects ps =
     map (\<lambda>project. \<lparr>content = ''PROJECT: '' @ proj_name project @ ''\<newline>'' @ proj_description project,
                      score = 1 / 2, kind = ''project''\<rparr>) (take 3 ps)"

text \<open>
  Each block of \<open>extractRelevantInfo\<close> takes the sections collected so far and the
  context, and gives the sections (\<open>None\<close> when the block throws) and the context as
  the block leaves it.
\<close>

definition projectsBlock ::
  "similarity \<Rightarrow> ResumeData \<Rightarrow> string \<Rightarrow> string list \<Rightarrow> Section list \<times> ConversationContext
     \<Rightarrow> Section list option \<times> ConversationContext" where
  "projectsBlock sim resume query intents st =
     (let queryLower = toLowerCase query; sections = fst st; ctx = snd st in
      if ''projects'' \<in> set intents \<or> includesStr queryLower ''project'' \<or> includesStr queryLower ''built''
      then (case projects resume of
              None \<Rightarrow> (Some sections, askAbout ''projects'' ctx)
            | Some ps \<Rightarrow>
                (case projectLoop sim query queryLower ps sections of
                   None \<Rightarrow> (None, askAbout ''projects'' ctx)
                 | Some sections1 \<Rightarrow>
                     (Some (if length sections1 = 0 \<and> length ps > 0 then sections1 @ topProjects ps else sections1),
                      askAbout ''projects'' ctx)))
      else (Some sections, ctx))"

definition aiSkillPattern :: regex where
  "aiSkillPattern = alts (map Lit [''ai'', ''ml'', ''llm'', ''rag'', ''transformer'', ''langchain'', ''hugging''])"

definition languageSkillPattern :: regex where
  "languageSkillPattern = alts (map Lit [''python'', ''sql'', ''javascript'', ''r'', ''php''])"

definition cloudSkillPattern :: regex where
  "cloudSkillPattern = alts (map Lit [''aws'', ''azure'', ''gcp'', ''cloud''])"

definition dataSkillPattern :: regex where
  "dataSkillPattern = alts (map Lit [''tableau'', ''power bi'', ''snowflake'', ''alteryx'', ''data''])"

definition frameworkSkillPattern :: regex where
  "frameworkSkillPattern = alts (map Lit [''pyside'', ''react'', ''pega'', ''uipath'', ''pyinstaller''])"

definition skillCategories :: "string list \<Rightarrow> (string \<times> string list) list" where
  "skillCategories ss =
     [(''ai'', filter (test_i aiSkillPattern) ss),
      (''languages'', filter (test_i languageSkillPattern) ss),
      (''cloud'', filter (test_i cloudSkillPattern) ss),
      (''data'', filter (test_i dataSkillPattern) ss),
      (''frameworks'', filter (test_i frameworkSkillPattern) ss)]"

definition categorySkills :: "(string \<times> string list) list \<Rightarrow> string \<Rightarrow> string list" where
  "categorySkills cats c = (case map_of cats c of None \<Rightarrow> [] | Some ss \<Rightarrow> ss)"

definition skillsSection :: "string \<Rightarrow> string list \<Rightarrow> Section" where
  "skillsSection queryLower ss =
     (let cats = skillCategories ss;
          best = find (\<lambda>entry. length (snd entry) > 0 \<and> includesStr queryLower (fst entry)) cats;
          bestCategory = (case best of None \<Rightarrow> ''all'' | Some entry \<Rightarrow> fst entry);
          bestMatch = (case best of None \<Rightarrow> [] | Some entry \<Rightarrow> join '', '' (snd entry))
      in if bestMatch \<noteq> []
         then \<lparr>content = toUpperCase bestCategory @ '' SKILLS: '' @ bestMatch, score = 2, kind = ''skills''\<rparr>
         else \<lparr>content = ''KEY SKILLS:\<newline>- AI/ML: '' @ join '', '' (take 5 (categorySkills cats ''ai'')) @
                          ''\<newline>- Languages: '' @ join '', '' (categorySkills cats ''languages'') @
                          ''\<newline>- Cloud: '' @ join '', '' (categorySkills cats ''cloud'') @
                          ''\<newline>- Data: '' @ join '', '' (take 3 (categorySkills cats ''data'')),
               score = 3 / 2, kind = ''skills''\<rparr>)"

definition skillsBlock ::
  "ResumeData \<Rightarrow> string \<Rightarrow> string list \<Rightarrow> Section list \<times> ConversationContext
     \<Rightarrow> Section list option \<times> ConversationContext" where
  "skillsBlock resume query intents st =
     (let queryLower = toLowerCase query; sections = fst st; ctx = snd st in
      if ''skills'' \<in> set intents \<or> includesStr queryLower ''skill'' \<or> includesStr queryLower ''expertise''
      then (Some (sections @ [skillsSection queryLower (skills resume)]), askAbout ''skills'' ctx)
      else (Some sections, ctx))"

fun experienceLoop :: "similarity \<Rightarrow> string \<Rightarrow> string \<Rightarrow> Experience list \<Rightarrow> Section list \<Rightarrow> Section list option" where
  "experienceLoop sim query queryLower [] sections = Some sections"
| "experienceLoop sim query queryLower (e # rest) sections =
     (case sim query (exp_title e @ '' '' @ exp_company e @ '' '' @ exp_description e) (13 / 10) of
        None \<Rightarrow> None
      | Some sc \<Rightarrow>
          (let companyBoost = (if includesStr queryLower (toLowerCase (exp_company e)) then 2 else 0) in
           experienceLoop sim query queryLower rest
             (if sc + companyBoost > 4 / 10
              then sections @
                     [\<lparr>content = ''EXPERIENCE: '' @ exp_title e @ '' at '' @ exp_company e @ ''\<newline>'' @
                                  exp_description e @ ''\<newline>'' @ orEmpty (exp_location e) @ '' | '' @
                                  orEmpty (exp_duration e),
                       score = sc + companyBoost, kind = ''experience''\<rparr>]
              else sections)))"

definition recentExperience :: "Experience list \<Rightarrow> Section list" where
  "recentExperience es =
     map (\<lambda>e. \<lparr>content = ''EXPERIENCE: '' @ exp_title e @ '' at '' @ exp_company e @ ''\<newline>'' @ exp_description e,
                score = 1 / 2, kind = ''experience''\<rparr>) (take 3 es)"

definition experienceBlock ::
  "similarity \<Rightarrow> ResumeData \<Rightarrow> string \<Rightarrow> string list \<Rightarrow> Section list \<times> ConversationContext
     \<Rightarrow> Section list option \<times> ConversationContext" where
  "experienceBlock sim resume query intents st =
     (let queryLower = toLowerCase query; sections = fst st; ctx = snd st in
      if ''experience'' \<in> set intents \<or> includesStr queryLower ''experience'' \<or> includesStr queryLower ''work''
         \<or> includesStr queryLower ''job''
      then (case experience resume of
              None \<Rightarrow> (Some sections, askAbout ''experience'' ctx)
            | Some es \<Rightarrow>
                (case experienceLoop sim query queryLower es sections of
                   None \<Rightarrow> (None, askAbout ''experience'' ctx)
                 | Some sections1 \<Rightarrow>
                     (Some (if length (filter (\<lambda>s. kind s = ''experience'') sections1) = 0
                            then sections1 @ recentExperience es else sections1),
                      askAbout ''experience'' ctx)))
      else (Some sections, ctx))"

definition educationLine :: "Education \<Rightarrow> string" where
  "educationLine edu =
     ''- '' @ edu_degree edu @ '' from '' @ edu_school edu @ '' '' @ orEmpty (edu_location edu) @ '' '' @
     orEmpty (edu_duration edu)"

definition educationBlock ::
  "ResumeData \<Rightarrow> string \<Rightarrow> string list \<Rightarrow> Section list \<times> ConversationContext
     \<Rightarrow> Section list option \<times> ConversationContext" where
  "educationBlock resume query intents st =
     (let queryLower = toLowerCase query; sections = fst st; ctx = snd st in
      if ''education'' \<in> set intents \<or> includesStr queryLower ''education'' \<or> includesStr queryLower ''degree''
         \<or> includesStr queryLower ''university'' \<or> includesStr queryLower ''master''
         \<or> includesStr queryLower ''bachelor''
      then (case education resume of
              None \<Rightarrow> (Some sections, askAbout ''education'' ctx)
            | Some es \<Rightarrow>
                (Some (sections @ [\<lparr>content = ''EDUCATION:\<newline>'' @ join ''\<newline>'' (map educationLine es),
                                     score = 3 / 2, kind = ''education''\<rparr>]),
                 askAbout ''education'' ctx))
      else (Some sections, ctx))"

definition certificationsBlock ::
  "ResumeData \<Rightarrow> string \<Rightarrow> Section list \<times> ConversationContext
     \<Rightarrow> Section list option \<times> ConversationContext" where
  "certificationsBlock resume query st =
     (let queryLower = toLowerCase query; sections = fst st; ctx = snd st in
      if includesStr queryLower ''certification'' \<or> includesStr queryLower ''certified''
         \<or> includesStr queryLower ''cert''
      then (case certifications resume of
              None \<Rightarrow> (Some sections, askAbout ''certifications'' ctx)
            | Some cs \<Rightarrow>
                (Some (sections @ [\<lparr>content = ''CERTIFICATIONS:\<newline>'' @ join ''\<newline>'' (map (\<lambda>cert. ''- '' @ cert) cs),
                                     score = 3 / 2, kind = ''certifications''\<rparr>]),
                 askAbout ''certifications'' ctx))
      else (Some sections, ctx))"

definition leadershipBlock ::
  "ResumeData \<Rightarrow> string \<Rightarrow> Section list \<times> ConversationContext
     \<Rightarrow> Section list option \<times> ConversationContext" where
  "leadershipBlock resume query st =
     (let queryLower = toLowerCase query; sections = fst st; ctx = snd st in
      if includesStr queryLower ''leadership'' \<or> includesStr queryLower ''leader''
         \<or> includesStr queryLower ''honor'' \<or> includesStr queryLower ''award''
      then (let sections1 = (case leadership resume of
                               None \<Rightarrow> sections
                             | Some ls \<Rightarrow> sections @ [\<lparr>content = ''LEADERSHIP: '' @ join '' | '' ls,
                                                        score = 13 / 10, kind = ''leadership''\<rparr>]);
                sections2 = (case honors resume of
                               None \<Rightarrow> sections1
                             | Some hs \<Rightarrow> sections1 @ [\<lparr>content = ''HONORS: '' @ join '' | '' hs,
                                                         score = 13 / 10, kind = ''honors''\<rparr>])
            in (Some sections2, askAbout ''achievements'' ctx))
      else (Some sections, ctx))"

text \<open>Running the next block unless an earlier one has thrown.\<close>

definition thenBlock ::
  "Section list option \<times> ConversationContext
     \<Rightarrow> (Section list \<times> ConversationContext \<Rightarrow> Section list option \<times> ConversationContext)
     \<Rightarrow> Section list option \<times> ConversationContext" where
  "thenBlock r block = (case fst r of None \<Rightarrow> r | Some sections \<Rightarrow> block (sections, snd r))"

definition combineSections :: "ResumeData \<Rightarrow> Section list \<Rightarrow> string" where
  "combineSections resume sections =
     (let sorted = sort_key (\<lambda>s. - score s) sections in
      if length sorted > 0 then join ''\<newline>\<newline>'' (map content (take 5 sorted))
      else generalOverview resume)"

text \<open>
  \<open>extractRelevantInfo\<close>: the extracted text (\<open>None\<close> when the function throws) and the
  conversation context as the function leaves it.
\<close>

definition extractRelevantInfo ::
  "similarity \<Rightarrow> ResumeData \<Rightarrow> string \<Rightarrow> ConversationContext \<Rightarrow> string option \<times> ConversationContext" where
  "extractRelevantInfo sim resume query ctx =
     (let queryLower = toLowerCase query;
          intents = detectIntent query;
          ctx1 = updateContext query intents ctx
      in if test introPattern queryLower
         then (Some (introInfo resume), askAbout ''intro'' ctx1)
         else
           (let r1 = projectsBlock sim resume query intents ([], ctx1);
                r2 = thenBlock r1 (skillsBlock resume query intents);
                r3 = thenBlock r2 (experienceBlock sim resume query intents);
                r4 = thenBlock r3 (educationBlock resume query intents);
                r5 = thenBlock r4 (certificationsBlock resume query);
                r6 = thenBlock r5 (leadershipBlock resume query)
            in (map_option (combineSections resume) (fst r6), snd r6)))"

section \<open>Canned responses\<close>

text \<open>
  The canned answers of the source are constant paragraphs of 400 to 1500 characters.
  Each is carried here by its opening words, which tell the paragraphs apart; the
  answers that are put together from the conversation context are modelled with every
  variable part.
\<close>

definition responses :: "(string \<times> string) list" where
  "responses =
    [(''resume_overview'', ''Great question! Let me walk you through my journey. I'm''),
     (''education_motivation'', ''Excellent question! I pursued both degrees because I''),
     (''why_ou'', ''University of Oklahoma was the perfect fit for me!''),
     (''why_mis'', ''I chose **Management Information Technology over pure''),
     (''business_tech_integration'', ''This is my superpower! I integrate business and''),
     (''digital_transformation'', ''Based on my experiences, **digital transformation is''),
     (''passion_origin'', ''Great question! My passion for digital transformation''),
     (''career_vision'', ''My **long-term vision** is to become a **Digital''),
     (''most_impactful'', ''The experience that shaped me most was honestly **my''),
     (''objectstream_role'', ''At **Objectstream as a Business Architect Intern with''),
     (''beats_insights'', ''The **Beats by Dre externship** was incredible! As a''),
     (''loves_analytics'', ''Love's was such a defining experience! Let me break''),
     (''teaching_role'', ''Being a **Graduate Assistant for Business Analysis &''),
     (''retail_experience'', ''**Managing retail at EVM LLC** (2018-2022) was my first''),
     (''avatar_inspiration'', ''This **Avatar Chat Portfolio** project came from a''),
     (''chibitomo_purpose'', ''**ChibiTomo solves a problem I personally''),
     (''aesculapius_privacy'', ''**Privacy was the core philosophy** behind Aesculapius''),
     (''linkedin_motivation'', ''The **LinkedIn Sentiment Assistant** came from pure''),
     (''cloud_preference'', ''Great technical question! I actually **prefer AWS, but''),
     (''sql_proficiency'', ''SQL is one of my strongest skills! Let me break down my''),
     (''debugging_approach'', ''My **debugging process for Python** is systematic: (1)''),
     (''ai_library_preference'', ''Tough choice, but here's my take: **For production''),
     (''leadership_club'', ''Being **Events Chair for Cousins Presidential Club**''),
     (''time_management'', ''**Balancing academics, internships, projects, and''),
     (''team_motivation'', ''**Motivating teams is about understanding individual''),
     (''work_culture'', ''Culture that motivates me has **four pillars**: (1)''),
     (''handling_failure'', ''I handle failure and criticism through **four steps**:''),
     (''why_hire'', ''You should hire me because I bring a **rare combination''),
     (''learning_from_mistakes'', ''One of my biggest early mistakes: **Over-engineering''),
     (''tech_ethics'', ''**Ethical technology use is critical, especially with''),
     (''hobbies'', ''Great question! Outside of work and tech, I'm pretty''),
     (''contact'', ''I'd love to connect! Here's how to reach me:'')]"

definition followUpProjectsText :: string where
  "followUpProjectsText = ''Absolutely! So beyond the projects I mentioned, I also''"

definition projectsDetailedText :: string where
  "projectsDetailedText = ''Let me dive deeper into my projects! **Avatar Chat''"

definition projectsOverviewText :: string where
  "projectsOverviewText = ''I've built some exciting projects! **Avatar Chat''"

definition lovesText :: string where
  "lovesText = ''Love's Travel Stop was amazing! As a Business Analyst''"

definition objectstreamText :: string where
  "objectstreamText = ''I'm currently a Business Architect Intern at''"

definition experienceText :: string where
  "experienceText = ''I've had some incredible experiences! Right now I'm''"

definition aiSkillsText :: string where
  "aiSkillsText = ''AI/ML is my sweet spot! I specialize in **LLMs, RAG''"

definition cloudSkillsText :: string where
  "cloudSkillsText = ''Cloud is where I thrive! I work across **AWS (pursuing''"

definition skillsText :: string where
  "skillsText = ''I'm pretty versatile! **Core strengths:** Python, SQL,''"

definition educationText :: string where
  "educationText = ''I just completed my **Master of Science in Management''"

definition aiText :: string where
  "aiText = ''AI is my absolute passion! I'm particularly excited''"

definition aiNewsText :: string where
  "aiNewsText = ''That's a great question about current AI trends! Since''"

definition achievementsText :: string where
  "achievementsText = ''I'm proud of a few things!''"

definition personalText :: string where
  "personalText = ''Thanks for asking! I was born in India and moved to''"

definition consultingText :: string where
  "consultingText = ''Great question! My consulting experience comes from my''"

definition motivationText :: string where
  "motivationText = ''Great philosophical question! Why do I do this?''"

definition getPatternResponse :: "string \<Rightarrow> string" where
  "getPatternResponse pattern =
     (case map_of responses pattern of
        Some r \<Rightarrow> (if r \<noteq> [] then r else ''Great question! Let me think about that... '' @ pattern)
      | None \<Rightarrow> ''Great question! Let me think about that... '' @ pattern)"

text \<open>The five greetings, built from the conversation context.\<close>

definition greetings :: "ConversationContext \<Rightarrow> string list" where
  "greetings ctx =
    [''Hey there! I'm Marzook - great to meet you! '' @
       (if sentiment ctx = Casual then ''I'm loving this 3D avatar experience I built!''
        else ''I'm an AI engineer and Business Architect passionate about solving real problems with technology.''),
     ''Hi! I'm Marzook Mansoor from Edmond, OK. '' @
       (if depth ctx = Overview then ''Quick intro:'' else ''Let me tell you a bit about myself:'') @
       '' I'm finishing up my Master's in IT while working on exciting AI and automation projects.'',
     ''Hello! '' @
       (if length (askedAbout ctx) > 0 then ''Good to continue our chat!'' else ''Good to see you.'') @
       '' I'm Marzook, and I'm passionate about how AI and technology can drive real business value. '' @
       (if sentiment ctx = Professional
        then ''I have experience in digital transformation, cloud architecture, and analytics.''
        else ''I build everything from 3D portfolio sites to intelligent desktop assistants.''),
     ''Hey! Marzook here '' @ [CHR 0xF0, CHR 0x9F, CHR 0x91, CHR 0x8B] @
       '' I blend AI, analytics, cloud architecture, and business strategy to create meaningful solutions. '' @
       (if ''ai'' \<in> set (topics ctx)
        then ''Since you're interested in AI, I work extensively with LLMs and RAG systems!''
        else ''Currently exploring opportunities in AI and digital transformation.''),
     ''Hi there! I'm Marzook. '' @
       (if ''projects'' \<in> set (askedAbout ctx)
        then ''You've already seen some of my projects - thanks for asking!''
        else ''I love building AI-powered applications and automating complex business processes.'') @
       '' From analytics pipelines that cut reporting time by 21% to intelligent desktop assistants, I'm all about practical innovation.'']"

text \<open>
  \<open>greetings[Math.floor(Math.random() * greetings.length)]\<close>: the argument \<open>random\<close> is
  the value of \<open>Math.random()\<close>, a number from 0 up to but not including 1, so the index
  is in range (outside of that range JavaScript would give \<open>undefined\<close>).
\<close>

definition pickGreeting :: "rat \<Rightarrow> ConversationContext \<Rightarrow> string" where
  "pickGreeting random ctx =
     (let gs = greetings ctx; i = nat \<lfloor>random * of_nat (length gs)\<rfloor>
      in if i < length gs then gs ! i else ''undefined'')"

definition contactText :: "ConversationContext \<Rightarrow> string" where
  "contactText ctx =
     ''I'd love to connect! **Email:** marzook.mansoor@outlook.com | **Phone:** (405) 588-9434 | **LinkedIn:** linkedin.com/in/marzook-mansoor | **GitHub:** github.com/zzthecoder. '' @
     (if sentiment ctx = Professional
      then ''Feel free to reach out about opportunities, collaborations, or technical discussions.''
      else ''Whether it's a project idea, a question about tech, or just saying hi, I'm always open to chatting!'') @
     '' '' @
     (if length (askedAbout ctx) > 1 then ''Thanks for the great questions so far!'' else '''') @
     '' .''"

text \<open>\<open>String.prototype.split(/\s+/)\<close>.\<close>

fun splitSpaces :: "bool \<Rightarrow> string \<Rightarrow> string \<Rightarrow> string list" where
  "splitSpaces gap acc [] = [rev acc]"
| "splitSpaces gap acc (c # cs) =
     (if isSpace c then (if gap then splitSpaces True [] cs else rev acc # splitSpaces True [] cs)
      else splitSpaces False (c # acc) cs)"

definition relevantKeywords :: "string \<Rightarrow> string list" where
  "relevantKeywords questionLower =
     filter (\<lambda>word. list_ex (\<lambda>keyword. includesStr keyword word \<or> includesStr word keyword)
                       (concat (map snd SEMANTIC_KEYWORDS)))
       (filter (\<lambda>w. length w > 3) (splitSpaces False [] questionLower))"

definition smartFallback :: "string \<Rightarrow> string list \<Rightarrow> ConversationContext \<Rightarrow> string" where
  "smartFallback questionLower intents ctx =
     ''That's an interesting question'' @
     (if length (relevantKeywords questionLower) > 0
      then '' about '' @ join '' and '' (take 2 (relevantKeywords questionLower)) else []) @
     ''! '' @
     (if length (askedAbout ctx) > 0
      then ''We've talked about '' @ join '', '' (sliceLast 3 (askedAbout ctx)) @ '' - '' else []) @
     (case intents of [] \<Rightarrow> [] | topIntent # _ \<Rightarrow> ''It sounds like you're interested in my '' @ topIntent @ ''. '') @
     ''I can tell you about my **work experience** (Love's, Objectstream/Pega, Beats), **AI projects** (Avatar Chat, ChibiTomo, Aesculapius AI), **technical skills** (Python, SQL, AI/ML, cloud), **education** (Master's & Bachelor's from OU), or **anything else**.''"

section \<open>Response generation\<close>

record PipelineState =
  responseCache :: responseCache
  cachedResumeData :: "ResumeData option"
  conversationContext :: ConversationContext

definition initialState :: PipelineState where
  "initialState = \<lparr>responseCache = [], cachedResumeData = None, conversationContext = initialContext\<rparr>"

datatype loadError = FetchFailed

text \<open>
  \<open>loadResumeData\<close>: the argument \<open>fetched\<close> is the outcome of fetching and parsing
  \<open>/data/me.json\<close>, \<open>None\<close> when that fails. The function throws in that case.
\<close>

definition loadResumeData :: "ResumeData option \<Rightarrow> PipelineState \<Rightarrow> (loadError + ResumeData) \<times> PipelineState" where
  "loadResumeData fetched st =
     (case cachedResumeData st of
        Some r \<Rightarrow> (Inr r, st)
      | None \<Rightarrow>
          (case fetched of
             None \<Rightarrow> (Inl FetchFailed, st)
           | Some r \<Rightarrow> (Inr r, st\<lparr>cachedResumeData := Some r\<rparr>)))"

definition bareGreeting :: regex where
  "bareGreeting =
     seqs [Bol,
           alts (map Lit [''hi'', ''hey'', ''hello'', ''howdy'', ''yo'', ''sup'', ''what's up'', ''good morning'',
                          ''good afternoon'', ''good evening'']),
           Star (Union SpaceClass (OneOf ''!?'')),
           Eol]"

definition followUpPattern :: regex where
  "followUpPattern = alts (map Lit [''tell me more'', ''what else'', ''anything else'', ''continue'', ''go on'', ''elaborate''])"

definition ouPattern :: regex where
  "ouPattern = seqs [WordB, Lit ''ou'', WordB]"

definition newsPattern :: regex where
  "newsPattern =
     alts [seqs [Lit ''what'', Opt (Lit [CHR 0x27]), Lit ''s '',
                 alts (map Lit [''new'', ''latest'', ''trending'', ''happening''])],
           Lit ''news'', Lit ''recent'', Lit ''today'', Lit ''current'']"

definition techPattern :: regex where
  "techPattern = alts (map Lit [''ai'', ''technology'', ''tech''])"

definition hirePattern :: regex where
  "hirePattern = alts (map Lit [''hire'', ''should we'', ''choose you'', ''pick you''])"

definition withContext :: "ConversationContext \<Rightarrow> PipelineState \<Rightarrow> PipelineState" where
  "withContext ctx st = st\<lparr>conversationContext := ctx\<rparr>"

text \<open>
  What a branch of \<open>generateRAGResponse\<close> does to the state of the module before it
  returns its text: nothing, \<open>conversationContext.askedAbout.add(topic)\<close>, or
  \<open>cacheResponse(question, response)\<close>.
\<close>

datatype effect = NoEffect | AskedAbout string | CacheIt

definition applyEffect :: "effect \<Rightarrow> string \<Rightarrow> string \<Rightarrow> int \<Rightarrow> PipelineState \<Rightarrow> PipelineState" where
  "applyEffect e question resp now st =
     (case e of
        NoEffect \<Rightarrow> st
      | AskedAbout topic \<Rightarrow> withContext (askAbout topic (conversationContext st)) st
      | CacheIt \<Rightarrow> st\<lparr>responseCache := cacheResponse question resp now (responseCache st)\<rparr>)"

text \<open>
  The branches of \<open>generateRAGResponse\<close> behind the four guarded steps, in the order of
  the source: the text each returns and its effect. The question, its normalization,
  the intents, the profile and the extracted text \<open>relevantInfo\<close> are in scope there.
\<close>

definition chooseResponse ::
  "string \<Rightarrow> rat \<Rightarrow> string \<Rightarrow> string \<Rightarrow> string list \<Rightarrow> ResumeData \<Rightarrow> ConversationContext
     \<Rightarrow> string \<times> effect" where
  "chooseResponse relevantInfo random question normalizedQuestion intents resume ctx =
     (let questionLower = toLowerCase question in
      if includesStr questionLower ''project'' then (projectsOverviewText, CacheIt)
      else case matchQuestionPattern question of
        Some pattern \<Rightarrow> (getPatternResponse pattern, CacheIt)
      | None \<Rightarrow>
      if test bareGreeting (trim questionLower) then (pickGreeting random ctx, NoEffect)
      else if length (topics ctx) > 0 \<and> test_i followUpPattern question
              \<and> (last (topics ctx) = ''projects'' \<or> last (topics ctx) = ''project'')
      then (followUpProjectsText, NoEffect)
      else if ''projects'' \<in> set intents \<or> includesStr questionLower ''project''
      then (if depth ctx = Detailed then projectsDetailedText else projectsOverviewText,
            AskedAbout ''projects'')
      else if ''experience'' \<in> set intents \<or> includesStr questionLower ''experience''
              \<or> includesStr questionLower ''work'' \<or> includesStr questionLower ''job''
      then (if includesStr questionLower ''love'' then lovesText
            else if includesStr questionLower ''pega'' \<or> includesStr questionLower ''objectstream''
            then objectstreamText
            else experienceText,
            AskedAbout ''experience'')
      else if ''skills'' \<in> set intents \<or> includesStr questionLower ''skill''
              \<or> includesStr questionLower ''expertise'' \<or> includesStr questionLower ''what can you do''
      then (if includesStr questionLower ''ai'' \<or> includesStr questionLower ''ml'' then aiSkillsText
            else if includesStr questionLower ''cloud'' then cloudSkillsText
            else skillsText,
            AskedAbout ''skills'')
      else if ''education'' \<in> set intents \<or> includesStr questionLower ''education''
              \<or> includesStr questionLower ''degree'' \<or> includesStr questionLower ''university''
              \<or> test ouPattern questionLower \<or> includesStr questionLower ''oklahoma''
      then (educationText, AskedAbout ''education'')
      else if (''ai'' \<in> set intents \<or> includesStr questionLower ''ai''
               \<or> includesStr questionLower ''machine learning'' \<or> includesStr questionLower ''llm'')
              \<and> \<not> test_i newsPattern questionLower
      then (aiText, AskedAbout ''ai'')
      else if test_i newsPattern questionLower \<and> test_i techPattern questionLower
      then (aiNewsText, NoEffect)
      else if ''contact'' \<in> set intents \<or> includesStr questionLower ''contact''
              \<or> includesStr questionLower ''reach'' \<or> includesStr questionLower ''email''
              \<or> includesStr questionLower ''phone''
      then (contactText (askAbout ''contact'' ctx), AskedAbout ''contact'')
      else if ''achievements'' \<in> set intents \<or> includesStr questionLower ''achievement''
              \<or> includesStr questionLower ''proud'' \<or> includesStr questionLower ''accomplishment''
      then (achievementsText, AskedAbout ''achievements'')
      else if ''personal'' \<in> set intents \<or> includesStr questionLower ''personal''
              \<or> includesStr questionLower ''background'' \<or> includesStr questionLower ''story''
              \<or> includesStr questionLower ''passion''
      then (personalText, NoEffect)
      else if includesStr questionLower ''consult'' \<or> includesStr questionLower ''business''
              \<or> includesStr questionLower ''strategy''
      then (consultingText, NoEffect)
      else if (''motivation'' \<in> set intents \<or> includesStr questionLower ''why'')
              \<and> \<not> test_i hirePattern questionLower
      then (motivationText, CacheIt)
      else (smartFallback questionLower intents ctx, CacheIt))"

definition selectResponse ::
  "string \<Rightarrow> int \<Rightarrow> rat \<Rightarrow> string \<Rightarrow> string \<Rightarrow> string list \<Rightarrow> ResumeData \<Rightarrow> PipelineState
     \<Rightarrow> string \<times> PipelineState" where
  "selectResponse relevantInfo now random question normalizedQuestion intents resume st =
     (let choice = chooseResponse relevantInfo random question normalizedQuestion intents resume
                     (conversationContext st)
      in (fst choice, applyEffect (snd choice) question (fst choice) now st))"

text \<open>
  \<open>generateRAGResponse\<close>. Beside the question and the state of the module it takes what
  the call reads from its environment: the similarity function, the outcome of the fetch,
  the clock and the random number. No exception of the model reaches the outermost
  handler of the source, so its apology text does not occur.
\<close>

definition generateRAGResponse ::
  "similarity \<Rightarrow> ResumeData option \<Rightarrow> int \<Rightarrow> rat \<Rightarrow> string \<Rightarrow> PipelineState \<Rightarrow> string \<times> PipelineState" where
  "generateRAGResponse sim fetched now random question st =
     (case getCachedResponse question now (responseCache st) of
        (cachedResponse, cache1) \<Rightarrow>
          if orEmpty cachedResponse \<noteq> [] then (orEmpty cachedResponse, st\<lparr>responseCache := cache1\<rparr>)
          else
            (let st0 = st\<lparr>responseCache := cache1\<rparr>;
                 loaded = loadResumeData fetched st0;
                 resume = (case fst loaded of Inl err \<Rightarrow> fallbackResume | Inr r \<Rightarrow> r);
                 st1 = snd loaded;
                 normalizedQuestion = normalizeQuery question;
                 intents = detectIntent normalizedQuestion;
                 extracted = extractRelevantInfo sim resume normalizedQuestion (conversationContext st1);
                 relevantInfo = orEmpty (fst extracted);
                 st2 = withContext (snd extracted) st1
             in selectResponse relevantInfo now random question normalizedQuestion intents resume st2))"

text \<open>A session: the calls of \<open>generateRAGResponse\<close> one after the other, each with its inputs.\<close>

record Call =
  call_fetched :: "ResumeData option"
  call_now :: int
  call_random :: rat
  call_question :: string

fun session :: "similarity \<Rightarrow> Call list \<Rightarrow> PipelineState \<Rightarrow> PipelineState" where
  "session sim [] st = st"
| "session sim (c # cs) st =
     session sim cs (snd (generateRAGResponse sim (call_fetched c) (call_now c) (call_random c) (call_question c) st))"

section \<open>Properties of the map and of the cache\<close>

lemma length_mapSet: "length (mapSet k v m) = (if k \<in> set (map fst m) then length m else Suc (length m))"
  by (induction m) force+

lemma mapSet_absent: "k \<notin> set (map fst m) \<Longrightarrow> mapSet k v m = m @ [(k, v)]"
  by (induction m) force+

lemma keys_mapSet: "set (map fst (mapSet k v m)) = insert k (set (map fst m))"
  by (induction m) force+

lemma distinct_mapSet: "distinct (map fst m) \<Longrightarrow> distinct (map fst (mapSet k v m))"
proof (induction m)
  case Nil
  then show ?case by simp
next
  case (Cons p m)
  obtain k' v' where p: "p = (k', v')" by (cases p)
  from Cons have d: "distinct (map fst (mapSet k v m))" and n: "k' \<notin> set (map fst m)" by (auto simp: p)
  show ?case
  proof (cases "k' = k")
    case True
    with Cons.prems show ?thesis by (simp add: p)
  next
    case False
    have "k' \<notin> set (map fst (mapSet k v m))" using n False unfolding keys_mapSet by simp
    with d False show ?thesis by (simp add: p)
  qed
qed

lemma keys_mapDelete_subset: "set (map fst (mapDelete k m)) \<subseteq> set (map fst m)"
proof (induction m)
  case Nil
  then show ?case by simp
next
  case (Cons p m)
  obtain k' v' where p: "p = (k', v')" by (cases p)
  show ?case using Cons by (cases "k' = k") (auto simp: p)
qed

lemma distinct_mapDelete: "distinct (map fst m) \<Longrightarrow> distinct (map fst (mapDelete k m))"
proof (induction m)
  case Nil
  then show ?case by simp
next
  case (Cons p m)
  obtain k' v' where p: "p = (k', v')" by (cases p)
  from Cons have d: "distinct (map fst (mapDelete k m))" and n: "k' \<notin> set (map fst m)" by (auto simp: p)
  have "k' \<notin> set (map fst (mapDelete k m))" using n keys_mapDelete_subset [of k m] by blast
  with d Cons.prems show ?case by (simp add: p)
qed

lemma length_cacheResponse: "length cache \<le> 50 \<Longrightarrow> length (cacheResponse q r t cache) \<le> 50"
proof -
  assume le: "length cache \<le> 50"
  let ?c1 = "mapSet (cacheKeyOf q) \<lparr>response = r, timestamp = t\<rparr> cache"
  have l1: "length ?c1 \<le> 51" using le by (simp add: length_mapSet)
  show ?thesis
  proof (cases ?c1)
    case Nil
    then show ?thesis by (simp add: cacheResponse_def Let_def)
  next
    case (Cons p rest)
    obtain k' v' where p: "p = (k', v')" by (cases p)
    have "length rest \<le> 50" using l1 Cons by simp
    then show ?thesis using Cons by (simp add: cacheResponse_def Let_def p)
  qed
qed

lemma distinct_cacheResponse:
  "distinct (map fst cache) \<Longrightarrow> distinct (map fst (cacheResponse q r t cache))"
proof -
  assume d: "distinct (map fst cache)"
  let ?c1 = "mapSet (cacheKeyOf q) \<lparr>response = r, timestamp = t\<rparr> cache"
  have d1: "distinct (map fst ?c1)" using d by (rule distinct_mapSet)
  show ?thesis
  proof (cases ?c1)
    case Nil
    then show ?thesis by (simp add: cacheResponse_def Let_def)
  next
    case (Cons p rest)
    obtain k' v' where p: "p = (k', v')" by (cases p)
    have "distinct (map fst rest)" using d1 Cons by simp
    then show ?thesis using Cons d1 by (simp add: cacheResponse_def Let_def p)
  qed
qed

lemma cachePuts_snoc: "cachePuts (ops @ [(q, r, t)]) cache = cacheResponse q r t (cachePuts ops cache)"
  by (simp add: cachePuts_def)

lemma length_cachePuts: "length cache \<le> 50 \<Longrightarrow> length (cachePuts ops cache) \<le> 50"
proof (induction ops rule: rev_induct)
  case Nil
  then show ?case by (simp add: cachePuts_def)
next
  case (snoc x ops)
  obtain q r t where x: "x = (q, r, t)" by (cases x)
  show ?case unfolding x cachePuts_snoc using snoc by (intro length_cacheResponse) simp
qed

lemma distinct_cachePuts: "distinct (map fst cache) \<Longrightarrow> distinct (map fst (cachePuts ops cache))"
proof (induction ops rule: rev_induct)
  case Nil
  then show ?case by (simp add: cachePuts_def)
next
  case (snoc x ops)
  obtain q r t where x: "x = (q, r, t)" by (cases x)
  show ?case unfolding x cachePuts_snoc using snoc by (intro distinct_cacheResponse) simp
qed

lemma cacheResponse_full_new:
  assumes len: "length cache = 50" and new: "cacheKeyOf q \<notin> set (map fst cache)"
  shows "cacheResponse q r t cache = tl cache @ [(cacheKeyOf q, \<lparr>response = r, timestamp = t\<rparr>)]"
proof -
  obtain p rest where c: "cache = p # rest" using len by (cases cache) auto
  obtain k' v' where p: "p = (k', v')" by (cases p)
  have ne: "k' \<noteq> cacheKeyOf q" using new c p by auto
  have s: "mapSet (cacheKeyOf q) \<lparr>response = r, timestamp = t\<rparr> cache
           = cache @ [(cacheKeyOf q, \<lparr>response = r, timestamp = t\<rparr>)]"
    using new by (rule mapSet_absent)
  show ?thesis using len ne unfolding cacheResponse_def Let_def s by (simp add: c p)
qed

text \<open>
  Claim C5. Starting from the empty cache, any sequence of put operations leaves at most
  50 entries. When the cache so reached is full (50 entries) and a put brings a key that
  is not yet cached, the result is the old cache without its first, that is oldest
  inserted, entry, followed by the new entry: every other entry keeps its value and its
  place.
\<close>

theorem cache_capacity_and_eviction:
  "length (cachePuts ops []) \<le> 50 \<and>
   (length (cachePuts ops []) = 50 \<and> cacheKeyOf q \<notin> set (map fst (cachePuts ops [])) \<longrightarrow>
      cachePuts (ops @ [(q, r, t)]) []
        = tl (cachePuts ops []) @ [(cacheKeyOf q, \<lparr>response = r, timestamp = t\<rparr>)])"
proof
  show "length (cachePuts ops []) \<le> 50" by (rule length_cachePuts) simp
next
  show "length (cachePuts ops []) = 50 \<and> cacheKeyOf q \<notin> set (map fst (cachePuts ops [])) \<longrightarrow>
      cachePuts (ops @ [(q, r, t)]) []
        = tl (cachePuts ops []) @ [(cacheKeyOf q, \<lparr>response = r, timestamp = t\<rparr>)]"
    unfolding cachePuts_snoc by (auto intro: cacheResponse_full_new)
qed

theorem cache_capacity_and_eviction_witness:
  "length (cachePuts (map (\<lambda>(x, y). ([x, y], ''r'', 0)) (take 50 (List.product ''abcdefg'' ''abcdefgh''))) []) = 50
   \<and> cacheKeyOf '' ZZ '' \<notin> set (map fst (cachePuts (map (\<lambda>(x, y). ([x, y], ''r'', 0)) (take 50 (List.product ''abcdefg'' ''abcdefgh''))) []))
   \<and> cachePuts (map (\<lambda>(x, y). ([x, y], ''r'', 0)) (take 50 (List.product ''abcdefg'' ''abcdefgh'')) @ [('' ZZ '', ''new'', 7)]) []
      = tl (cachePuts (map (\<lambda>(x, y). ([x, y], ''r'', 0)) (take 50 (List.product ''abcdefg'' ''abcdefgh''))) [])
          @ [(''zz'', \<lparr>response = ''new'', timestamp = 7\<rparr>)]"
proof -
  let ?ops = "map (\<lambda>(x, y). ([x, y], ''r'', 0::int)) (take 50 (List.product ''abcdefg'' ''abcdefgh''))"
  have h1: "length (cachePuts ?ops []) = 50" by code_simp
  have h2: "cacheKeyOf '' ZZ '' \<notin> set (map fst (cachePuts ?ops []))" by code_simp
  have h3: "cacheKeyOf '' ZZ '' = ''zz''" by code_simp
  show ?thesis
    using cache_capacity_and_eviction [of ?ops "'' ZZ ''" "''new''" 7] h1 h2 h3 by simp
qed

section \<open>Properties of the response pipeline\<close>

lemma length_sliceLast: "length (sliceLast n xs) \<le> n"
  by (simp add: sliceLast_def)

lemma topics_updateContext: "topics (updateContext q is c) = sliceLast 10 (topics c @ is)"
  by (simp add: updateContext_def)

lemma topics_askAbout: "topics (askAbout t c) = topics c"
  by (simp add: askAbout_def)

lemma topics_projectsBlock: "topics (snd (projectsBlock sim r q is st)) = topics (snd st)"
  by (simp add: projectsBlock_def Let_def topics_askAbout split: option.split)

lemma topics_skillsBlock: "topics (snd (skillsBlock r q is st)) = topics (snd st)"
  by (simp add: skillsBlock_def Let_def topics_askAbout)

lemma topics_experienceBlock: "topics (snd (experienceBlock sim r q is st)) = topics (snd st)"
  by (simp add: experienceBlock_def Let_def topics_askAbout split: option.split)

lemma topics_educationBlock: "topics (snd (educationBlock r q is st)) = topics (snd st)"
  by (simp add: educationBlock_def Let_def topics_askAbout split: option.split)

lemma topics_certificationsBlock: "topics (snd (certificationsBlock r q st)) = topics (snd st)"
  by (simp add: certificationsBlock_def Let_def topics_askAbout split: option.split)

lemma topics_leadershipBlock: "topics (snd (leadershipBlock r q st)) = topics (snd st)"
  by (simp add: leadershipBlock_def Let_def topics_askAbout split: option.split)

lemma topics_thenBlock:
  "(\<And>st. topics (snd (block st)) = topics (snd st)) \<Longrightarrow> topics (snd (thenBlock r block)) = topics (snd r)"
  by (simp add: thenBlock_def split: option.split)

lemma topics_extractRelevantInfo:
  "topics (snd (extractRelevantInfo sim r q c)) = sliceLast 10 (topics c @ detectIntent q)"
  by (simp add: extractRelevantInfo_def Let_def topics_askAbout topics_updateContext
      topics_thenBlock topics_projectsBlock topics_skillsBlock topics_experienceBlock
      topics_educationBlock topics_certificationsBlock topics_leadershipBlock)

lemma topics_applyEffect:
  "topics (conversationContext (applyEffect e q r now st)) = topics (conversationContext st)"
  by (cases e) (simp_all add: applyEffect_def withContext_def topics_askAbout)

lemma topics_selectResponse:
  "topics (conversationContext (snd (selectResponse ri now rnd q nq is r st))) = topics (conversationContext st)"
  by (simp add: selectResponse_def Let_def topics_applyEffect)

lemma context_loadResumeData: "conversationContext (snd (loadResumeData f st)) = conversationContext st"
  by (simp add: loadResumeData_def split: option.split)

lemma topics_generateRAGResponse:
  "length (topics (conversationContext st)) \<le> 10 \<Longrightarrow>
   length (topics (conversationContext (snd (generateRAGResponse sim f now rnd q st)))) \<le> 10"
  by (simp add: generateRAGResponse_def Let_def withContext_def topics_selectResponse
      topics_extractRelevantInfo length_sliceLast context_loadResumeData split: prod.split)

lemma topics_session:
  "length (topics (conversationContext st)) \<le> 10 \<Longrightarrow>
   length (topics (conversationContext (session sim calls st))) \<le> 10"
  by (induction calls arbitrary: st) (simp_all add: topics_generateRAGResponse)

text \<open>
  Claim C7. After any session of calls from the initial state the topic list holds at
  most 10 entries. \<open>updateContext\<close> appends the detected intents and keeps the last 10
  entries of the result, so the entries dropped are the oldest.
\<close>

theorem topics_bounded_fifo:
  "length (topics (conversationContext (session sim calls initialState))) \<le> 10 \<and>
   length (topics (updateContext query intents ctx)) \<le> 10 \<and>
   topics (updateContext query intents ctx)
     = drop (length (topics ctx @ intents) - 10) (topics ctx @ intents)"
proof -
  have "length (topics (conversationContext initialState)) \<le> 10"
    by (simp add: initialState_def initialContext_def)
  then have "length (topics (conversationContext (session sim calls initialState))) \<le> 10"
    by (rule topics_session)
  moreover have "length (topics (updateContext query intents ctx)) \<le> 10"
    by (simp add: topics_updateContext length_sliceLast)
  moreover have "topics (updateContext query intents ctx)
     = drop (length (topics ctx @ intents) - 10) (topics ctx @ intents)"
    by (simp add: topics_updateContext sliceLast_def)
  ultimately show ?thesis by blast
qed






































section \<open>Properties of intent detection\<close>

lemma keywordStep_points: "keywordStep ql sc kw = sc + keywordPoints ql kw"
  by (simp add: keywordStep_def keywordPoints_def)

lemma foldl_keywordStep: "foldl (keywordStep ql) acc kws = acc + sum_list (map (keywordPoints ql) kws)"
  by (induction kws arbitrary: acc) (simp_all add: keywordStep_points)

lemma intentScore_sum: "intentScore ql kws = sum_list (map (keywordPoints ql) kws)"
  by (simp add: intentScore_def foldl_keywordStep)

lemma startsWith_CI: "startsWith s w \<Longrightarrow> startsWithCI s w"
  by (induction s w rule: startsWith.induct) simp_all

lemma countMatches_pos: "w \<noteq> [] \<Longrightarrow> includesStr s w \<Longrightarrow> 0 < countMatches w 0 s"
  by (induction s) (auto dest: startsWith_CI)

lemma keywordPoints_pos: "w \<noteq> [] \<Longrightarrow> includesStr ql w \<Longrightarrow> 1 \<le> keywordPoints ql w"
proof -
  assume "w \<noteq> []" "includesStr ql w"
  then have "0 < countMatches w 0 ql" by (rule countMatches_pos)
  then have "(1::rat) \<le> of_nat (countMatches w 0 ql)" by simp
  then show ?thesis using \<open>includesStr ql w\<close> by (simp add: keywordPoints_def)
qed

lemma keywordPoints_nonneg: "w \<noteq> [] \<Longrightarrow> 0 \<le> keywordPoints ql w"
  using keywordPoints_pos [of w ql] by (cases "includesStr ql w") (simp_all add: keywordPoints_def)

lemma keywords_nonempty: "list_all (\<lambda>e. list_all (\<lambda>w. w \<noteq> []) (snd e)) SEMANTIC_KEYWORDS"
  by code_simp

lemma taxonomy_distinct: "distinct (map fst SEMANTIC_KEYWORDS)"
  by code_simp

lemma taxonomy_keywords_nonempty:
  "map_of SEMANTIC_KEYWORDS i = Some kws \<Longrightarrow> w \<in> set kws \<Longrightarrow> w \<noteq> []"
proof -
  assume m: "map_of SEMANTIC_KEYWORDS i = Some kws" and w: "w \<in> set kws"
  from m have "(i, kws) \<in> set SEMANTIC_KEYWORDS" by (rule map_of_SomeD)
  with keywords_nonempty have "list_all (\<lambda>w. w \<noteq> []) kws" unfolding list_all_iff by auto
  with w show ?thesis unfolding list_all_iff by blast
qed

lemma taxonomyScore_nonneg: "0 \<le> taxonomyScore q i"
proof (cases "map_of SEMANTIC_KEYWORDS i")
  case None
  then show ?thesis by (simp add: taxonomyScore_def)
next
  case (Some kws)
  have "0 \<le> keywordPoints (toLowerCase q) w" if "w \<in> set kws" for w
    using taxonomy_keywords_nonempty [OF Some that] by (rule keywordPoints_nonneg)
  then have "0 \<le> sum_list (map (keywordPoints (toLowerCase q)) kws)"
    by (intro sum_list_nonneg) auto
  with Some show ?thesis by (simp add: taxonomyScore_def)
qed

lemma taxonomyScore_entry:
  "e \<in> set SEMANTIC_KEYWORDS \<Longrightarrow> taxonomyScore q (fst e) = intentScore (toLowerCase q) (snd e)"
proof -
  assume "e \<in> set SEMANTIC_KEYWORDS"
  then have "map_of SEMANTIC_KEYWORDS (fst e) = Some (snd e)"
    using map_of_eq_Some_iff [OF taxonomy_distinct, of "fst e" "snd e"] by simp
  then show ?thesis by (simp add: taxonomyScore_def intentScore_sum)
qed

subsection \<open>Tables of scores\<close>

lemma scoreTable_append: "scoreTable (A @ B) g = scoreTable A g @ scoreTable B g"
  by (simp add: scoreTable_def)

lemma keys_scoreTable: "map fst (scoreTable K g) = filter (\<lambda>i. g i \<noteq> 0) K"
  by (simp add: scoreTable_def comp_def)

lemma scoreTable_cong: "(\<And>i. i \<in> set K \<Longrightarrow> g i = h i) \<Longrightarrow> scoreTable K g = scoreTable K h"
  unfolding scoreTable_def by (induction K) auto

lemma scoreTable_zero: "(\<And>i. i \<in> set K \<Longrightarrow> g i = 0) \<Longrightarrow> scoreTable K g = []"
  unfolding scoreTable_def by (induction K) auto

lemma mapSet_middle: "k \<notin> set (map fst A) \<Longrightarrow> mapSet k v (A @ (k, w) # B) = A @ (k, v) # B"
  by (induction A) auto

lemma scoreTable_set:
  assumes d: "distinct (K1 @ [k] @ K2)" and v: "v \<noteq> 0"
    and c: "g k \<noteq> 0 \<or> (\<forall>j\<in>set K2. g j = 0)"
  shows "mapSet k v (scoreTable (K1 @ [k] @ K2) g) = scoreTable (K1 @ [k] @ K2) (g(k := v))"
proof -
  have k1: "k \<notin> set K1" and k2: "k \<notin> set K2" using d by auto
  have a: "scoreTable K1 (g(k := v)) = scoreTable K1 g"
    by (rule scoreTable_cong) (use k1 in auto)
  have b: "scoreTable K2 (g(k := v)) = scoreTable K2 g"
    by (rule scoreTable_cong) (use k2 in auto)
  have n: "k \<notin> set (map fst (scoreTable K1 g))"
    using k1 by (simp add: keys_scoreTable)
  have m: "scoreTable [k] (g(k := v)) = [(k, v)]" using v by (simp add: scoreTable_def)
  have split: "scoreTable (K1 @ [k] @ K2) h = scoreTable K1 h @ scoreTable [k] h @ scoreTable K2 h" for h
    by (simp add: scoreTable_def)
  show ?thesis
  proof (cases "g k = 0")
    case False
    then have "scoreTable [k] g = [(k, g k)]" by (simp add: scoreTable_def)
    then show ?thesis unfolding split a b m using n by (simp add: mapSet_middle)
  next
    case True
    with c have "scoreTable K2 g = []" by (intro scoreTable_zero) auto
    moreover from True have "scoreTable [k] g = []" by (simp add: scoreTable_def)
    ultimately show ?thesis unfolding split a b m using n by (simp add: mapSet_absent)
  qed
qed

lemma foldl_scoreStep:
  assumes "distinct (map fst E)"
    and "\<And>e. e \<in> set E \<Longrightarrow> g (fst e) = intentScore ql (snd e) \<and> 0 \<le> g (fst e)"
    and "set (map fst acc) \<inter> set (map fst E) = {}"
  shows "foldl (scoreStep ql) acc E = acc @ scoreTable (map fst E) g"
  using assms
proof (induction E arbitrary: acc)
  case Nil
  then show ?case by (simp add: scoreTable_def)
next
  case (Cons e E)
  have ge: "g (fst e) = intentScore ql (snd e)" and nn: "0 \<le> g (fst e)"
    using Cons.prems(2) [of e] by simp_all
  have fresh: "fst e \<notin> set (map fst acc)" using Cons.prems(3) by auto
  have step: "scoreStep ql acc e = acc @ scoreTable [fst e] g"
  proof (cases "g (fst e) = 0")
    case True
    then show ?thesis using ge by (simp add: scoreStep_def scoreTable_def)
  next
    case False
    with nn have "0 < g (fst e)" by simp
    then show ?thesis using ge fresh False by (simp add: scoreStep_def scoreTable_def mapSet_absent)
  qed
  have keys: "set (map fst (acc @ scoreTable [fst e] g)) \<inter> set (map fst E) = {}"
    using Cons.prems(1,3) by (auto simp: scoreTable_def)
  have "foldl (scoreStep ql) (acc @ scoreTable [fst e] g) E = (acc @ scoreTable [fst e] g) @ scoreTable (map fst E) g"
  proof (rule Cons.IH)
    show "distinct (map fst E)" using Cons.prems(1) by simp
    show "g (fst x) = intentScore ql (snd x) \<and> 0 \<le> g (fst x)" if "x \<in> set E" for x
      using Cons.prems(2) [of x] that by simp
    show "set (map fst (acc @ scoreTable [fst e] g)) \<inter> set (map fst E) = {}" by (rule keys)
  qed
  then show ?case using step by (simp add: scoreTable_def)
qed

lemma keyword_table:
  "foldl (scoreStep (toLowerCase q)) [] SEMANTIC_KEYWORDS = scoreTable (map fst SEMANTIC_KEYWORDS) (taxonomyScore q)"
proof -
  have "foldl (scoreStep (toLowerCase q)) [] SEMANTIC_KEYWORDS
          = [] @ scoreTable (map fst SEMANTIC_KEYWORDS) (taxonomyScore q)"
  proof (rule foldl_scoreStep)
    show "distinct (map fst SEMANTIC_KEYWORDS)" by (rule taxonomy_distinct)
    show "taxonomyScore q (fst e) = intentScore (toLowerCase q) (snd e) \<and> 0 \<le> taxonomyScore q (fst e)"
      if "e \<in> set SEMANTIC_KEYWORDS" for e
      using taxonomyScore_entry [OF that, of q] taxonomyScore_nonneg [of q "fst e"] by blast
    show "set (map fst []) \<inter> set (map fst SEMANTIC_KEYWORDS) = {}" by simp
  qed
  then show ?thesis by simp
qed


subsection \<open>The battery of patterns\<close>

lemma patternStep_table:
  assumes t: "T = scoreTable (K1 @ [k] @ K2) g"
    and d: "distinct (K1 @ [k] @ K2)" and v: "v \<noteq> 0"
    and c: "test_i r q \<Longrightarrow> g k \<noteq> 0 \<or> (\<forall>j\<in>set K2. g j = 0)"
  shows "patternStep q T (r, k, v) = scoreTable (K1 @ [k] @ K2) (if test_i r q then g(k := v) else g)"
proof (cases "test_i r q")
  case True
  with c have "g k \<noteq> 0 \<or> (\<forall>j\<in>set K2. g j = 0)" by simp
  from scoreTable_set [OF d v this] True show ?thesis by (simp add: patternStep_def t)
next
  case False
  then show ?thesis by (simp add: patternStep_def t)
qed

subsection \<open>Letter case\<close>

lemma map_of_zip_inverse:
  "length xs = length ys \<Longrightarrow> distinct xs \<Longrightarrow> distinct ys \<Longrightarrow>
   map_of (zip xs ys) x = Some y \<Longrightarrow> map_of (zip ys xs) y = Some x"
proof (induction xs ys rule: list_induct2)
  case Nil
  then show ?case by simp
next
  case (Cons a xs b ys)
  show ?case
  proof (cases "x = a")
    case True
    with Cons.prems show ?thesis by simp
  next
    case False
    with Cons.prems have m: "map_of (zip xs ys) x = Some y" by simp
    then have "(x, y) \<in> set (zip xs ys)" by (rule map_of_SomeD)
    then have "y \<in> set ys" by (rule set_zip_rightD)
    with Cons.prems have "y \<noteq> b" by auto
    moreover have "map_of (zip ys xs) y = Some x"
    proof (rule Cons.IH)
      show "distinct xs" "distinct ys" using Cons.prems by simp_all
      show "map_of (zip xs ys) x = Some y" by (rule m)
    qed
    ultimately show ?thesis by simp
  qed
qed

lemma letters_length: "length lowerLetters = length upperLetters"
  by code_simp

lemma letters_distinct: "distinct lowerLetters \<and> distinct upperLetters"
  by code_simp

lemma letters_apart: "list_all (\<lambda>c. c \<notin> set upperLetters) lowerLetters"
  by code_simp

lemma letters_facts:
  "length lowerLetters = length upperLetters" "distinct lowerLetters" "distinct upperLetters"
  "set lowerLetters \<inter> set upperLetters = {}"
  using letters_length letters_distinct letters_apart unfolding list_all_iff by blast+

lemma map_of_zip_None: "x \<notin> set xs \<Longrightarrow> map_of (zip xs ys) x = None"
  by (meson map_of_SomeD not_Some_eq set_zip_leftD)

lemma lowerChar_not_upper: "c \<notin> set upperLetters \<Longrightarrow> lowerChar c = c"
  by (simp add: lowerChar_def map_of_zip_None)

lemma toUpperChar_not_lower: "c \<notin> set lowerLetters \<Longrightarrow> toUpperChar c = c"
  by (simp add: toUpperChar_def map_of_zip_None)

lemma toUpperChar_lower:
  assumes "l \<in> set lowerLetters"
  shows "map_of (zip lowerLetters upperLetters) l = Some (toUpperChar l) \<and>
         map_of (zip upperLetters lowerLetters) (toUpperChar l) = Some l \<and>
         toUpperChar l \<in> set upperLetters"
proof -
  have "l \<in> dom (map_of (zip lowerLetters upperLetters))"
    using assms letters_facts(1) by (simp add: dom_map_of_zip)
  then obtain u where u: "map_of (zip lowerLetters upperLetters) l = Some u" by auto
  then have t: "toUpperChar l = u" by (simp add: toUpperChar_def)
  have "map_of (zip upperLetters lowerLetters) u = Some l"
    using letters_facts(1,2,3) u by (rule map_of_zip_inverse)
  moreover have "u \<in> set upperLetters"
    using map_of_SomeD [OF u] by (rule set_zip_rightD)
  ultimately show ?thesis using u t by simp
qed

text \<open>A character that equals a lower-case letter up to case is that letter once lowered.\<close>

lemma lowerChar_of_canon:
  assumes l: "l \<in> set lowerLetters" and eq: "toUpperChar c = toUpperChar l"
  shows "lowerChar c = l"
proof -
  note u = toUpperChar_lower [OF l]
  have ll: "lowerChar l = l" using l letters_facts(4) by (intro lowerChar_not_upper) auto
  show ?thesis
  proof (cases "c \<in> set lowerLetters")
    case True
    from toUpperChar_lower [OF True] eq have "map_of (zip upperLetters lowerLetters) (toUpperChar l) = Some c"
      by simp
    with u have "c = l" by simp
    with ll show ?thesis by simp
  next
    case False
    then have "c = toUpperChar l" using eq by (simp add: toUpperChar_not_lower)
    with u show ?thesis by (simp add: lowerChar_def)
  qed
qed

lemma startsWithCI_lower:
  "set w \<subseteq> set lowerLetters \<Longrightarrow> startsWithCI s w \<Longrightarrow> startsWith (toLowerCase s) w"
proof (induction s w rule: startsWithCI.induct)
  case (1 s)
  then show ?case by simp
next
  case (2 w ws)
  then show ?case by simp
next
  case (3 c cs w ws)
  then have "lowerChar c = w" by (intro lowerChar_of_canon) auto
  with 3 show ?case by (simp add: toLowerCase_def)
qed

lemma litEnd_startsWithCI: "litEnd True w (p, s) \<noteq> None \<Longrightarrow> startsWithCI s w"
proof (induction w arbitrary: p s)
  case Nil
  then show ?case by simp
next
  case (Cons a w)
  then show ?case by (cases s) (auto simp: canon_def split: if_splits)
qed

lemma includesStr_startsWith: "startsWith s w \<Longrightarrow> includesStr s w"
  by (cases s; cases w) auto

lemma testFrom_Lit_includes:
  "set w \<subseteq> set lowerLetters \<Longrightarrow> testFrom True (Lit w) (p, s) \<Longrightarrow> includesStr (toLowerCase s) w"
proof (induction s arbitrary: p)
  case Nil
  then have "litEnd True w (p, []) \<noteq> None" by (auto split: option.splits)
  then have "startsWithCI [] w" by (rule litEnd_startsWithCI)
  with Nil(1) have "startsWith (toLowerCase []) w" by (rule startsWithCI_lower)
  then show ?case by (rule includesStr_startsWith)
next
  case (Cons c cs)
  show ?case
  proof (cases "litEnd True w (p, c # cs) \<noteq> None")
    case True
    then have "startsWithCI (c # cs) w" by (rule litEnd_startsWithCI)
    with Cons.prems(1) have "startsWith (toLowerCase (c # cs)) w" by (rule startsWithCI_lower)
    then show ?thesis by (rule includesStr_startsWith)
  next
    case False
    with Cons.prems(2) have "testFrom True (Lit w) (Some c, cs)" by (auto split: option.splits)
    with Cons.prems(1) have "includesStr (toLowerCase cs) w" by (rule Cons.IH)
    then show ?thesis by (simp add: toLowerCase_def)
  qed
qed

lemma why_scores_motivation: "test_i (Lit ''why'') q \<Longrightarrow> taxonomyScore q ''motivation'' \<noteq> 0"
proof -
  assume "test_i (Lit ''why'') q"
  then have "testFrom True (Lit ''why'') (None, q)" by (simp add: test_i_def)
  moreover have "set ''why'' \<subseteq> set lowerLetters" by (simp add: lowerLetters_def)
  ultimately have inc: "includesStr (toLowerCase q) ''why''" by (intro testFrom_Lit_includes)
  have m: "map_of SEMANTIC_KEYWORDS ''motivation''
             = Some [''why'', ''motivated'', ''inspire'', ''passion'', ''drive'', ''what sparked'']"
    by code_simp
  have "1 \<le> keywordPoints (toLowerCase q) ''why''" using inc by (intro keywordPoints_pos) simp_all
  moreover have "0 \<le> keywordPoints (toLowerCase q) ''motivated''" by (rule keywordPoints_nonneg) simp
  moreover have "0 \<le> keywordPoints (toLowerCase q) ''inspire''" by (rule keywordPoints_nonneg) simp
  moreover have "0 \<le> keywordPoints (toLowerCase q) ''passion''" by (rule keywordPoints_nonneg) simp
  moreover have "0 \<le> keywordPoints (toLowerCase q) ''drive''" by (rule keywordPoints_nonneg) simp
  moreover have "0 \<le> keywordPoints (toLowerCase q) ''what sparked''" by (rule keywordPoints_nonneg) simp
  ultimately have "1 \<le> taxonomyScore q ''motivation''"
    unfolding taxonomyScore_def m by simp
  then show ?thesis by simp
qed


subsection \<open>The table of \<open>detectIntent\<close>\<close>

lemma patternStep_order:
  assumes t: "T = scoreTable F g" and f: "F = K1 @ [k] @ K2"
    and d: "distinct F" and v: "v \<noteq> 0"
    and c: "test_i r q \<Longrightarrow> g k \<noteq> 0 \<or> (\<forall>j\<in>set K2. g j = 0)"
  shows "patternStep q T (r, k, v) = scoreTable F (if test_i r q then g(k := v) else g)"
  using patternStep_table [of T K1 k K2 g v r q] t d v c unfolding f by blast

lemma order_distinct: "distinct firstSeenOrder"
  by code_simp

lemma pattern_intents_new:
  "list_all (\<lambda>j. map_of SEMANTIC_KEYWORDS j = None)
     [''capabilities'', ''detailed'', ''process'', ''timeline'', ''location'']"
  by code_simp

lemma taxonomyScore_new:
  "j \<in> set [''capabilities'', ''detailed'', ''process'', ''timeline'', ''location''] \<Longrightarrow> taxonomyScore q j = 0"
  using pattern_intents_new unfolding list_all_iff by (auto simp: taxonomyScore_def)

lemma intentTable_scoreTable: "intentTable q = scoreTable firstSeenOrder (finalScore q)"
proof -
  let ?F = "firstSeenOrder"
  let ?tax = "map fst SEMANTIC_KEYWORDS"
  define g0 where "g0 = taxonomyScore q"
  define g1 where "g1 = (if test_i whatYouPattern q then g0(''capabilities'' := 2) else g0)"
  define g2 where "g2 = (if test_i tellMePattern q then g1(''detailed'' := 3 / 2) else g1)"
  define g3 where "g3 = (if test_i howPattern q then g2(''process'' := 3 / 2) else g2)"
  define g4 where "g4 = (if test_i (Lit ''why'') q then g3(''motivation'' := 2) else g3)"
  define g5 where "g5 = (if test_i (Lit ''when'') q then g4(''timeline'' := 1) else g4)"
  define g6 where "g6 = (if test_i (Lit ''where'') q then g5(''location'' := 1) else g5)"
  have z0: "g0 j = 0" if "j \<in> set [''capabilities'', ''detailed'', ''process'', ''timeline'', ''location'']" for j
    unfolding g0_def using that by (rule taxonomyScore_new)
  have z1: "g1 j = 0" if "j \<in> set [''detailed'', ''process'', ''timeline'', ''location'']" for j
    using that z0 [of j] by (auto simp: g1_def)
  have z2: "g2 j = 0" if "j \<in> set [''process'', ''timeline'', ''location'']" for j
    using that z1 [of j] by (auto simp: g2_def)
  have z3: "g3 j = 0" if "j \<in> set [''timeline'', ''location'']" for j
    using that z2 [of j] by (auto simp: g3_def)
  have z4: "g4 j = 0" if "j \<in> set [''timeline'', ''location'']" for j
    using that z3 [of j] by (auto simp: g4_def)
  have z5: "g5 j = 0" if "j \<in> set [''location'']" for j
    using that z4 [of j] by (auto simp: g5_def)
  have m3: "g3 ''motivation'' = g0 ''motivation''"
    by (simp add: g3_def g2_def g1_def)
  have t0: "foldl (scoreStep (toLowerCase q)) [] SEMANTIC_KEYWORDS = scoreTable ?F g0"
  proof -
    have "scoreTable [''capabilities'', ''detailed'', ''process'', ''timeline'', ''location''] g0 = []"
      by (rule scoreTable_zero) (rule z0)
    then show ?thesis
      unfolding keyword_table g0_def firstSeenOrder_def scoreTable_append by simp
  qed
  have f1: "?F = ?tax @ [''capabilities''] @ [''detailed'', ''process'', ''timeline'', ''location'']"
    by (simp add: firstSeenOrder_def)
  have f2: "?F = (?tax @ [''capabilities'']) @ [''detailed''] @ [''process'', ''timeline'', ''location'']"
    by (simp add: firstSeenOrder_def)
  have f3: "?F = (?tax @ [''capabilities'', ''detailed'']) @ [''process''] @ [''timeline'', ''location'']"
    by (simp add: firstSeenOrder_def)
  have f4: "?F = [''experience'', ''projects'', ''skills'', ''education'', ''ai'', ''contact'', ''achievements'',
                  ''personal'', ''leadership'']
                 @ [''motivation'']
                 @ [''challenges'', ''future'', ''resume'', ''cloud'', ''consulting'', ''teaching'', ''retail'',
                    ''technical'', ''capabilities'', ''detailed'', ''process'', ''timeline'', ''location'']"
    by (simp add: firstSeenOrder_def SEMANTIC_KEYWORDS_def)
  have f5: "?F = (?tax @ [''capabilities'', ''detailed'', ''process'']) @ [''timeline''] @ [''location'']"
    by (simp add: firstSeenOrder_def)
  have f6: "?F = (?tax @ [''capabilities'', ''detailed'', ''process'', ''timeline'']) @ [''location''] @ []"
    by (simp add: firstSeenOrder_def)
  define T1 where "T1 = patternStep q (scoreTable ?F g0) (whatYouPattern, ''capabilities'', 2)"
  have t1: "T1 = scoreTable ?F g1"
    unfolding T1_def g1_def
    by (rule patternStep_order [OF refl f1 order_distinct]) (use z0 in auto)
  define T2 where "T2 = patternStep q T1 (tellMePattern, ''detailed'', 3 / 2)"
  have t2: "T2 = scoreTable ?F g2"
    unfolding T2_def g2_def
    by (rule patternStep_order [OF t1 f2 order_distinct]) (use z1 in auto)
  define T3 where "T3 = patternStep q T2 (howPattern, ''process'', 3 / 2)"
  have t3: "T3 = scoreTable ?F g3"
    unfolding T3_def g3_def
    by (rule patternStep_order [OF t2 f3 order_distinct]) (use z2 in auto)
  define T4 where "T4 = patternStep q T3 (Lit ''why'', ''motivation'', 2)"
  have t4: "T4 = scoreTable ?F g4"
    unfolding T4_def g4_def
  proof (rule patternStep_order [OF t3 f4 order_distinct])
    show "(2::rat) \<noteq> 0" by simp
    show "g3 ''motivation'' \<noteq> 0 \<or> (\<forall>j\<in>set [''challenges'', ''future'', ''resume'', ''cloud'', ''consulting'',
             ''teaching'', ''retail'', ''technical'', ''capabilities'', ''detailed'', ''process'', ''timeline'',
             ''location'']. g3 j = 0)"
      if "test_i (Lit ''why'') q"
      using why_scores_motivation [OF that] unfolding m3 g0_def by blast
  qed
  define T5 where "T5 = patternStep q T4 (Lit ''when'', ''timeline'', 1)"
  have t5: "T5 = scoreTable ?F g5"
    unfolding T5_def g5_def
    by (rule patternStep_order [OF t4 f5 order_distinct]) (use z4 in auto)
  define T6 where "T6 = patternStep q T5 (Lit ''where'', ''location'', 1)"
  have t6: "T6 = scoreTable ?F g6"
    unfolding T6_def g6_def
    by (rule patternStep_order [OF t5 f6 order_distinct]) auto
  have table: "intentTable q = T6"
    unfolding intentTable_def Let_def t0 intentPatterns_def T6_def T5_def T4_def T3_def T2_def T1_def
    by simp
  have score: "finalScore q = g6"
    unfolding finalScore_def intentPatterns_def g6_def g5_def g4_def g3_def g2_def g1_def g0_def
    by simp
  show ?thesis unfolding table t6 score by (rule refl)
qed

lemma insort_key_scored:
  "insort_key (\<lambda>e. - snd e) (x, g x) (map (\<lambda>i. (i, g i)) ys)
     = map (\<lambda>i. (i, g i)) (insort_key (\<lambda>i. - g i) x ys)"
  by (induction ys) simp_all

lemma sort_key_scored:
  "sort_key (\<lambda>e. - snd e) (map (\<lambda>i. (i, g i)) xs) = map (\<lambda>i. (i, g i)) (sort_key (\<lambda>i. - g i) xs)"
  by (induction xs) (simp_all add: insort_key_scored)

lemma ranked_scoreTable:
  "map fst (sortByScoreDesc (scoreTable K g)) = sort_key (\<lambda>i. - g i) (filter (\<lambda>i. g i \<noteq> 0) K)"
  by (simp add: sortByScoreDesc_def scoreTable_def sort_key_scored comp_def)

text \<open>
  Claim C4, amended. \<open>detectIntent\<close> returns the intents whose final score is not zero,
  in first-seen order, stably sorted by descending final score. The final score of an
  intent is its keyword score (2 points for a matched keyword longer than 4 characters,
  1 point otherwise, half a point for each further occurrence), unless one of the six
  patterns of the battery matches and sets the score of its intent. The result is
  sorted by descending score, and intents of equal score stand in first-seen order.
\<close>

theorem detectIntent_ranking:
  "detectIntent query = rankedIntents query \<and>
   sorted (map (\<lambda>i. - finalScore query i) (detectIntent query)) \<and>
   filter (\<lambda>i. finalScore query i = s) (detectIntent query)
     = filter (\<lambda>i. finalScore query i = s) (filter (\<lambda>i. finalScore query i \<noteq> 0) firstSeenOrder)"
proof -
  have eq: "detectIntent query = rankedIntents query"
    by (simp add: detectIntent_def intentTable_scoreTable ranked_scoreTable rankedIntents_def)
  have "sorted (map (\<lambda>i. - finalScore query i) (rankedIntents query))"
    unfolding rankedIntents_def by (rule sorted_sort_key)
  moreover have "filter (\<lambda>i. - finalScore query i = - s) (rankedIntents query)
     = filter (\<lambda>i. - finalScore query i = - s) (filter (\<lambda>i. finalScore query i \<noteq> 0) firstSeenOrder)"
    unfolding rankedIntents_def by (rule sort_key_stable)
  ultimately show ?thesis using eq by simp
qed

theorem detectIntent_counterexample:
  "detectIntent ''when'' = [''timeline''] \<and> claimedIntents ''when'' = []"
  by code_simp

section \<open>Properties of query normalization\<close>

subsection \<open>Replacing runs of a character class\<close>






lemma replaceAll_run_nil: "replaceAll ci (Seq (Cls k) (Star k)) repl p 0 [] = []"
  by simp








subsection \<open>Words\<close>









subsection \<open>Replacing a whole word\<close>

lemma canon_letter_word:
  assumes l: "l \<in> set lowerLetters" and eq: "toUpperChar c = toUpperChar l"
  shows "isWordChar c"
proof (cases "c \<in> set upperLetters")
  case True
  then show ?thesis by (simp add: isWordChar_def)
next
  case False
  then have "lowerChar c = c" by (rule lowerChar_not_upper)
  with lowerChar_of_canon [OF l eq] have "c = l" by simp
  with l show ?thesis by (simp add: isWordChar_def)
qed






lemma toUpperCase_words:
  "set t \<subseteq> set lowerLetters \<Longrightarrow> toUpperCase u = toUpperCase t \<Longrightarrow> list_all isWordChar u"
proof (induction u arbitrary: t)
  case Nil
  then show ?case by simp
next
  case (Cons c cs)
  then obtain l ls where t: "t = l # ls" by (cases t) (auto simp: toUpperCase_def)
  have "isWordChar c" using Cons.prems t by (intro canon_letter_word [of l c]) (auto simp: toUpperCase_def)
  moreover have "list_all isWordChar cs" using Cons.prems t by (intro Cons.IH [of ls]) (auto simp: toUpperCase_def)
  ultimately show ?case by simp
qed













subsection \<open>Trimming and white space\<close>

















subsection \<open>Normalised white space\<close>












subsection \<open>Lower case\<close>










subsection \<open>Words that are typos\<close>















subsection \<open>The normalized query\<close>





end
